theory Spec2Isabelle
  imports Main
begin

section \<open>Library functions the servers call\<close>

subsection \<open>Form values\<close>

text \<open>
  Go's \<^verbatim>\<open>url.Values\<close> is a finite \<^verbatim>\<open>map[string][]string\<close>; it is kept as an
  association list, read through \<^verbatim>\<open>Get\<close>, which yields the first value stored
  under the key and the empty string when there is none. After \<^verbatim>\<open>ParseForm\<close>,
  \<^verbatim>\<open>req.FormValue k\<close> is \<^verbatim>\<open>req.Form.Get k\<close>, so a request is its form.
\<close>

type_synonym Values = "(string \<times> string list) list"

definition Get :: "Values \<Rightarrow> string \<Rightarrow> string" where
  "Get v key = (case map_of v key of None \<Rightarrow> [] | Some [] \<Rightarrow> [] | Some (x # _) \<Rightarrow> x)"

subsection \<open>Formatting and parsing integers\<close>

definition digit_char :: "nat \<Rightarrow> char" where
  "digit_char d = char_of (48 + d)"

text \<open>\<^verbatim>\<open>fmt.Sprintf("%d", n)\<close> for a non-negative \<^verbatim>\<open>n\<close>.\<close>

fun dec :: "nat \<Rightarrow> string" where
  "dec n = (if n < 10 then [digit_char n] else dec (n div 10) @ [digit_char (n mod 10)])"

declare dec.simps [simp del]

text \<open>\<^verbatim>\<open>fmt.Sprintf("%d", i)\<close> for any integer.\<close>

definition Sprintf_d :: "int \<Rightarrow> string" where
  "Sprintf_d i = (if i < 0 then CHR ''-'' # dec (nat (- i)) else dec (nat i))"

definition hex_char :: "nat \<Rightarrow> char" where
  "hex_char d = (if d < 10 then char_of (48 + d) else char_of (55 + d))"

text \<open>\<^verbatim>\<open>fmt.Sprintf("%0X", n)\<close> for a non-negative \<^verbatim>\<open>n\<close>: upper-case hexadecimal.\<close>

fun hex :: "nat \<Rightarrow> string" where
  "hex n = (if n < 16 then [hex_char n] else hex (n div 16) @ [hex_char (n mod 16)])"

declare hex.simps [simp del]

definition is_digit :: "char \<Rightarrow> bool" where
  "is_digit c = (48 \<le> (of_char c :: nat) \<and> (of_char c :: nat) \<le> 57)"

definition digit_val :: "char \<Rightarrow> nat" where
  "digit_val c = of_char c - 48"

datatype 'a parsed = Parsed 'a | ErrSyntax | ErrRange 'a

definition maxUint64 :: nat where
  "maxUint64 = 2 ^ 64 - 1"

text \<open>
  The digit loop of \<^verbatim>\<open>strconv.ParseUint(s, 10, 64)\<close>: a byte that is no digit is a
  syntax error, an accumulator that leaves 64 bits is a range error, reported at the byte
  where it happens.
\<close>

fun ParseUint_loop :: "string \<Rightarrow> nat \<Rightarrow> nat parsed" where
  "ParseUint_loop [] n = Parsed n"
| "ParseUint_loop (c # cs) n =
     (if \<not> is_digit c then ErrSyntax
      else if n \<ge> maxUint64 div 10 + 1 then ErrRange maxUint64
      else if n * 10 + digit_val c > maxUint64 then ErrRange maxUint64
      else ParseUint_loop cs (n * 10 + digit_val c))"

definition ParseUint :: "string \<Rightarrow> nat parsed" where
  "ParseUint s = (if s = [] then ErrSyntax else ParseUint_loop s 0)"

text \<open>\<^verbatim>\<open>strconv.ParseInt(s, 10, 64)\<close>: an optional sign, then \<^verbatim>\<open>ParseUint\<close>, then the
  check against the signed range, where the result is clamped.\<close>

definition ParseInt :: "string \<Rightarrow> int parsed" where
  "ParseInt s =
     (case s of
        [] \<Rightarrow> ErrSyntax
      | c # cs \<Rightarrow>
          (let neg = (c = CHR ''-'');
               s' = (if c = CHR ''+'' \<or> c = CHR ''-'' then cs else s)
           in case ParseUint s' of
                ErrSyntax \<Rightarrow> ErrSyntax
              | ErrRange un \<Rightarrow> (if neg then ErrRange (- (2 ^ 63)) else ErrRange (2 ^ 63 - 1))
              | Parsed un \<Rightarrow>
                  (if \<not> neg \<and> un \<ge> 2 ^ 63 then ErrRange (2 ^ 63 - 1)
                   else if neg \<and> un > 2 ^ 63 then ErrRange (- (2 ^ 63))
                   else Parsed (if neg then - int un else int un))))"

text \<open>
  \<^verbatim>\<open>n, _ := strconv.Atoi(s)\<close> with the error dropped, on a 64-bit \<^verbatim>\<open>int\<close>: zero after
  a syntax error, the clamped value after a range error.
\<close>

definition Atoi :: "string \<Rightarrow> int" where
  "Atoi s = (case ParseInt s of Parsed n \<Rightarrow> n | ErrSyntax \<Rightarrow> 0 | ErrRange n \<Rightarrow> n)"

text \<open>\<^verbatim>\<open>strings.ToUpper\<close> on ASCII text: the letters a to z are upper-cased and every other
  byte is kept. Go also maps letters beyond ASCII; no property below reads a protocol
  that has one.\<close>

definition ToUpper :: "string \<Rightarrow> string" where
  "ToUpper s = map (\<lambda>c. if 97 \<le> (of_char c :: nat) \<and> (of_char c :: nat) \<le> 122
                          then char_of ((of_char c :: nat) - 32) else c) s"

subsection \<open>Probing indexed parameters\<close>

text \<open>
  Every loop over a repeated parameter in the servers has one shape:
  \<^verbatim>\<open>i := 1; x := Get(pre ++ i ++ suf); for x != "" { body; i++; x = Get(pre ++ i ++ suf) }\<close>.
  \<^verbatim>\<open>probe\<close> is that loop. The body gets the index, the value read and the loop's
  variables; it either leaves the handler (\<open>Inl\<close>: an early return or a panic) or goes on
  with new variables (\<open>Inr\<close>). When the probe reads the empty string the loop ends, and
  \<^verbatim>\<open>probe\<close> hands back the loop's variables together with \<^verbatim>\<open>x\<close> as the loop left it,
  which two handlers read after their loop.
\<close>

text \<open>The decimal rendering is injective, so the probed keys are pairwise different and a
  finite form answers only finitely many of them: the loop ends.\<close>

lemma digit_val_digit_char: "d < 10 \<Longrightarrow> digit_val (digit_char d) = d"
  by (simp add: digit_val_def digit_char_def)

definition dec_value :: "string \<Rightarrow> nat" where
  "dec_value s = foldl (\<lambda>a c. 10 * a + digit_val c) 0 s"

lemma dec_value_dec: "dec_value (dec n) = n"
proof (induction n rule: dec.induct)
  case (1 n)
  show ?case
  proof (cases "n < 10")
    case True
    then show ?thesis
      by (simp add: dec.simps [of n] dec_value_def digit_val_digit_char)
  next
    case False
    with 1 have "dec_value (dec (n div 10)) = n div 10" by simp
    with False show ?thesis
      by (simp add: dec.simps [of n] dec_value_def digit_val_digit_char)
  qed
qed

lemma inj_dec: "inj dec"
  by (rule inj_on_inverseI [where g = dec_value]) (rule dec_value_dec)

lemma inj_probe_key: "inj (\<lambda>j. pre @ dec j @ suf)"
  using inj_dec by (auto simp: inj_def)

lemma Get_nonempty_dom: "Get v k \<noteq> [] \<Longrightarrow> k \<in> fst ` set v"
  by (auto simp: Get_def split: option.splits list.splits dest: map_of_SomeD intro: rev_image_eqI)

lemma finite_probe_keys: "finite {j. pre @ dec j @ suf \<in> fst ` set v}"
proof -
  have "finite ((\<lambda>j. pre @ dec j @ suf) -` (fst ` set v))"
    by (rule finite_vimageI) (simp_all add: inj_probe_key)
  then show ?thesis by (simp add: vimage_def)
qed

lemma probe_keys_decrease:
  assumes "Get v (pre @ dec i @ suf) \<noteq> []"
  shows "card {j. Suc i \<le> j \<and> pre @ dec j @ suf \<in> fst ` set v}
       < card {j. i \<le> j \<and> pre @ dec j @ suf \<in> fst ` set v}"
proof (rule psubset_card_mono)
  show "finite {j. i \<le> j \<and> pre @ dec j @ suf \<in> fst ` set v}"
    using finite_probe_keys [of pre suf v] by (rule rev_finite_subset) auto
  have "i \<in> {j. i \<le> j \<and> pre @ dec j @ suf \<in> fst ` set v}"
    using assms by (simp add: Get_nonempty_dom)
  moreover have "i \<notin> {j. Suc i \<le> j \<and> pre @ dec j @ suf \<in> fst ` set v}"
    by simp
  moreover have "{j. Suc i \<le> j \<and> pre @ dec j @ suf \<in> fst ` set v}
       \<subseteq> {j. i \<le> j \<and> pre @ dec j @ suf \<in> fst ` set v}"
    by auto
  ultimately show "{j. Suc i \<le> j \<and> pre @ dec j @ suf \<in> fst ` set v}
       \<subset> {j. i \<le> j \<and> pre @ dec j @ suf \<in> fst ` set v}"
    by blast
qed

function probe ::
  "string \<Rightarrow> string \<Rightarrow> Values \<Rightarrow> (nat \<Rightarrow> string \<Rightarrow> 'a \<Rightarrow> 'e + 'a) \<Rightarrow> nat \<Rightarrow> 'a
     \<Rightarrow> 'e + string \<times> 'a" where
  "probe pre suf v body i acc =
     (let x = Get v (pre @ dec i @ suf)
      in if x = [] then Inr (x, acc)
         else case body i x acc of
                Inl e \<Rightarrow> Inl e
              | Inr acc' \<Rightarrow> probe pre suf v body (Suc i) acc')"
  by pat_completeness auto
termination
  by (relation "measure (\<lambda>(pre, suf, v, body, i, acc).
        card {j. i \<le> j \<and> pre @ dec j @ suf \<in> fst ` set v})")
     (simp_all add: probe_keys_decrease)

declare probe.simps [simp del]

text \<open>The same loop with a body that always goes on.\<close>

function probe_all ::
  "string \<Rightarrow> string \<Rightarrow> Values \<Rightarrow> (nat \<Rightarrow> string \<Rightarrow> 'a \<Rightarrow> 'a) \<Rightarrow> nat \<Rightarrow> 'a \<Rightarrow> 'a" where
  "probe_all pre suf v body i acc =
     (let x = Get v (pre @ dec i @ suf)
      in if x = [] then acc else probe_all pre suf v body (Suc i) (body i x acc))"
  by pat_completeness auto
termination
  by (relation "measure (\<lambda>(pre, suf, v, body, i, acc).
        card {j. i \<le> j \<and> pre @ dec j @ suf \<in> fst ` set v})")
     (simp_all add: probe_keys_decrease)

declare probe_all.simps [simp del]

section \<open>The load-balancer simulator (package elbtest)\<close>

subsection \<open>Resources\<close>

text \<open>
  Modelled from the spec: the declarations of package \<^verbatim>\<open>elb\<close> (listener, health check,
  instance, instance state, tag, load balancer, error) are not part of the source at hand.
  The records carry the fields the server reads and writes, under the names it uses; the
  ports and thresholds are \<^verbatim>\<open>int64\<close> there and integers here, every value stored in
  them coming from \<^verbatim>\<open>Atoi\<close> or \<^verbatim>\<open>ParseInt\<close>, which keep to 64 bits.
\<close>

record Listener =
  Protocol :: string
  InstanceProtocol :: string
  SSLCertificateId :: string
  LoadBalancerPort :: int
  InstancePort :: int

record HealthCheck =
  HealthyThreshold :: int
  Interval :: int
  Target :: string
  Timeout :: int
  UnhealthyThreshold :: int

text \<open>The one field of \<^verbatim>\<open>elb.Instance\<close> the server uses is its \<^verbatim>\<open>InstanceId\<close>; the
  name carries a suffix here because the instance state has a field of the same name.\<close>

record Instance =
  InstanceId_i :: string

record InstanceState =
  Description :: string
  InstanceId :: string
  State :: string
  ReasonCode :: string

record Tag =
  Key :: string
  Value :: string

record LoadBalancerTag =
  Tags :: "Tag list"
  TagLoadBalancerName :: string

record LoadBalancer =
  AvailabilityZones :: "string list"
  Subnets :: "string list"
  SecurityGroups :: "string list"
  HealthCheck :: HealthCheck
  Listeners :: "Listener list"
  Scheme :: string
  LoadBalancerName :: string
  DNSName :: string
  Instances :: "Instance list"

record Error =
  StatusCode :: nat
  Code :: string
  Message :: string

text \<open>
  The server's state. The map \<^verbatim>\<open>lbs\<close> holds pointers in the source; every pointer is
  made by one \<^verbatim>\<open>makeLoadBalancer\<close> or \<^verbatim>\<open>NewLoadBalancer\<close> call and stored under one
  name, so a load balancer is kept by value and a write through the pointer is an update
  of the map. A missing key of \<^verbatim>\<open>instanceStates\<close> or \<^verbatim>\<open>lbTags\<close> reads as the empty
  slice. The listener, the mutex, the URL and the never used \<^verbatim>\<open>lbsReqs\<close> are left out.
\<close>

record Server =
  reqId :: nat
  lbs :: "string \<rightharpoonup> LoadBalancer"
  instances :: "string list"
  instanceStates :: "string \<rightharpoonup> InstanceState list"
  instCount :: nat
  lbTags :: "string \<rightharpoonup> Tag list"

definition slice_of :: "(string \<rightharpoonup> 'a list) \<Rightarrow> string \<Rightarrow> 'a list" where
  "slice_of m k = (case m k of None \<Rightarrow> [] | Some xs \<Rightarrow> xs)"

definition NewServer :: Server where
  "NewServer = \<lparr>reqId = 0, lbs = Map.empty, instances = [], instanceStates = Map.empty,
                 instCount = 0, lbTags = Map.empty\<rparr>"

text \<open>
  What a handler hands back: a response, a structured error, or a panic (a nil
  dereference, a failed \<^verbatim>\<open>ParseInt\<close>). The load balancers of
  \<^verbatim>\<open>DescribeLoadBalancersResp\<close> are listed in Go's unspecified map order; the response
  keeps them as the map.
\<close>

datatype Resp =
    CreateLoadBalancerResp string
  | SimpleResp string
  | RegisterInstancesWithLoadBalancerResp "Instance list"
  | DescribeLoadBalancersResp "string \<rightharpoonup> LoadBalancer"
  | AddTagsResp string
  | DescribeTagsResp string string "LoadBalancerTag list"
  | DescribeInstanceHealthResp "InstanceState list"
  | ConfigureHealthCheckResp HealthCheck

datatype Result = Return Resp | Fail Error | Panic

subsection \<open>Validation\<close>

fun validate :: "Values \<Rightarrow> string list \<Rightarrow> Error option" where
  "validate req [] = None"
| "validate req (field # required) =
     (if Get req field = []
      then Some \<lparr>StatusCode = 400, Code = ''ValidationError'',
                  Message = field @ '' is required.''\<rparr>
      else validate req required)"

text \<open>The composition is a Go map; its one caller passes a single pair, so the order of
  the iteration does not matter and the pairs are a list.\<close>

fun validateComposition :: "Values \<Rightarrow> (string \<times> string) list \<Rightarrow> Error option" where
  "validateComposition req [] = None"
| "validateComposition req ((k, v) # composition) =
     (if Get req k \<noteq> [] \<and> Get req v \<noteq> []
      then Some \<lparr>StatusCode = 400, Code = ''ValidationError'',
                  Message = ''Only one of '' @ k @ '' or '' @ v @ '' may be specified''\<rparr>
      else if Get req k = [] \<and> Get req v = []
      then Some \<lparr>StatusCode = 400, Code = ''ValidationError'',
                  Message = ''Either '' @ k @ '' or '' @ v @ '' must be specified''\<rparr>
      else validateComposition req composition)"

definition instanceExists :: "Server \<Rightarrow> string \<Rightarrow> Error option" where
  "instanceExists srv iid =
     (if iid \<in> set (instances srv) then None
      else Some \<lparr>StatusCode = 400, Code = ''InvalidInstance'',
                  Message = ''InvalidInstance found in ['' @ iid @ '']. Invalid id: ''
                            @ [CHR 0x22] @ iid @ [CHR 0x22]\<rparr>)"

definition lbExists :: "Server \<Rightarrow> string \<Rightarrow> Error option" where
  "lbExists srv name =
     (case lbs srv name of
        None \<Rightarrow> Some \<lparr>StatusCode = 400, Code = ''LoadBalancerNotFound'',
                  Message = ''There is no ACTIVE Load Balancer named ''
                            @ [CHR 0x27] @ name @ [CHR 0x27]\<rparr>
      | Some _ \<Rightarrow> None)"

subsection \<open>Building a load balancer from a form\<close>

definition getParameters :: "string \<Rightarrow> Values \<Rightarrow> string list" where
  "getParameters prefix values = probe_all prefix [] values (\<lambda>i x result. result @ [x]) 1 []"

definition makeInstanceState :: "string \<Rightarrow> InstanceState" where
  "makeInstanceState iid =
     \<lparr>Description = ''Instance is in pending state.'', InstanceId = iid,
      State = ''OutOfService'', ReasonCode = ''Instance''\<rparr>"

definition makeHealthCheck :: "Values \<Rightarrow> HealthCheck" where
  "makeHealthCheck value =
     (let ht = (if Get value ''HealthCheck.HealthyThreshold'' \<noteq> []
                then Atoi (Get value ''HealthCheck.HealthyThreshold'') else 10);
          timeout = (if Get value ''HealthCheck.Timeout'' \<noteq> []
                then Atoi (Get value ''HealthCheck.Timeout'') else 5);
          ut = (if Get value ''HealthCheck.UnhealthyThreshold'' \<noteq> []
                then Atoi (Get value ''HealthCheck.UnhealthyThreshold'') else 2);
          interval = (if Get value ''HealthCheck.Interval'' \<noteq> []
                then Atoi (Get value ''HealthCheck.Interval'') else 30);
          target = (if Get value ''HealthCheck.Target'' \<noteq> []
                then Get value ''HealthCheck.Target'' else ''TCP:80'')
      in \<lparr>HealthyThreshold = ht, Interval = interval, Target = target, Timeout = timeout,
          UnhealthyThreshold = ut\<rparr>)"

definition makeListener :: "Values \<Rightarrow> nat \<Rightarrow> string \<Rightarrow> Listener" where
  "makeListener value i protocol =
     (let key = ''Listeners.member.'' @ dec i @ ''.''
      in \<lparr>Protocol = ToUpper protocol,
          InstanceProtocol = ToUpper (Get value (key @ ''InstanceProtocol'')),
          SSLCertificateId = Get value (key @ ''SSLCertificateId''),
          LoadBalancerPort = Atoi (Get value (key @ ''LoadBalancerPort'')),
          InstancePort = Atoi (Get value (key @ ''InstancePort''))\<rparr>)"

definition makeLoadBalancer :: "Values \<Rightarrow> LoadBalancer" where
  "makeLoadBalancer value =
     (let lds = probe_all ''Listeners.member.'' ''.Protocol'' value
                  (\<lambda>i protocol lds. lds @ [makeListener value i protocol]) 1 []
      in \<lparr>AvailabilityZones = getParameters ''AvailabilityZones.member.'' value,
          Subnets = getParameters ''Subnets.member.'' value,
          SecurityGroups = getParameters ''SecurityGroups.member.'' value,
          HealthCheck = makeHealthCheck value,
          Listeners = lds,
          Scheme = (if Get value ''Scheme'' = [] then ''internet-facing'' else Get value ''Scheme''),
          LoadBalancerName = Get value ''LoadBalancerName'',
          DNSName = [],
          Instances = []\<rparr>)"

subsection \<open>Handlers\<close>

definition createLoadBalancer_required :: "string list" where
  "createLoadBalancer_required =
     [''Listeners.member.1.InstancePort'',
      ''Listeners.member.1.InstanceProtocol'',
      ''Listeners.member.1.Protocol'',
      ''Listeners.member.1.LoadBalancerPort'',
      ''LoadBalancerName'']"

definition createLoadBalancer :: "Server \<Rightarrow> Values \<Rightarrow> string \<Rightarrow> Result \<times> Server" where
  "createLoadBalancer srv req rid =
     (case validateComposition req [(''AvailabilityZones.member.1'', ''Subnets.member.1'')] of
        Some err \<Rightarrow> (Fail err, srv)
      | None \<Rightarrow>
          (case validate req createLoadBalancer_required of
             Some err \<Rightarrow> (Fail err, srv)
           | None \<Rightarrow>
               (let lbName = Get req ''LoadBalancerName'';
                    dns = lbName @ ''-some-aws-stuff.us-east-1.elb.amazonaws.com'';
                    lb = (makeLoadBalancer req)\<lparr>DNSName := dns\<rparr>
                in (Return (CreateLoadBalancerResp dns), srv\<lparr>lbs := (lbs srv)(lbName \<mapsto> lb)\<rparr>))))"

definition RemoveLoadBalancer :: "Server \<Rightarrow> string \<Rightarrow> Server" where
  "RemoveLoadBalancer srv name = srv\<lparr>lbs := (lbs srv)(name := None)\<rparr>"

definition deleteLoadBalancer :: "Server \<Rightarrow> Values \<Rightarrow> string \<Rightarrow> Result \<times> Server" where
  "deleteLoadBalancer srv req rid =
     (case validate req [''LoadBalancerName''] of
        Some err \<Rightarrow> (Fail err, srv)
      | None \<Rightarrow> (Return (SimpleResp rid), RemoveLoadBalancer srv (Get req ''LoadBalancerName'')))"

text \<open>
  After the loop the handler appends one state made from \<^verbatim>\<open>instId\<close>, the loop's
  variable, and then the instances. The load balancer is there (\<^verbatim>\<open>lbExists\<close> has
  passed); were it not, the second statement would dereference nil.
\<close>

definition registerInstancesWithLoadBalancer ::
  "Server \<Rightarrow> Values \<Rightarrow> string \<Rightarrow> Result \<times> Server" where
  "registerInstancesWithLoadBalancer srv req rid =
     (case validate req [''LoadBalancerName'', ''Instances.member.1.InstanceId''] of
        Some err \<Rightarrow> (Fail err, srv)
      | None \<Rightarrow>
          (let lbName = Get req ''LoadBalancerName''
           in case lbExists srv lbName of
                Some err \<Rightarrow> (Fail err, srv)
              | None \<Rightarrow>
                  (case probe ''Instances.member.'' ''.InstanceId'' req
                          (\<lambda>i instId (instIds, insts).
                             case instanceExists srv instId of
                               Some err \<Rightarrow> Inl err
                             | None \<Rightarrow> Inr (instIds @ [instId],
                                              insts @ [\<lparr>InstanceId_i = instId\<rparr>]))
                          1 ([], []) of
                     Inl err \<Rightarrow> (Fail err, srv)
                   | Inr (instId, instIds, insts) \<Rightarrow>
                       (let srv1 = srv\<lparr>instanceStates := (instanceStates srv)
                                      (lbName \<mapsto> slice_of (instanceStates srv) lbName
                                                  @ [makeInstanceState instId])\<rparr>
                        in case lbs srv1 lbName of
                             None \<Rightarrow> (Panic, srv1)
                           | Some lb \<Rightarrow>
                               (Return (RegisterInstancesWithLoadBalancerResp insts),
                                srv1\<lparr>lbs := (lbs srv1)
                                       (lbName \<mapsto> lb\<lparr>Instances := Instances lb @ insts\<rparr>)\<rparr>)))))"

fun first_index :: "('a \<Rightarrow> bool) \<Rightarrow> 'a list \<Rightarrow> nat option" where
  "first_index P [] = None"
| "first_index P (x # xs) = (if P x then Some 0 else map_option Suc (first_index P xs))"

text \<open>The first instance with the id is found, the ones behind it are copied one place
  down and the slice loses its last place.\<close>

definition removeInstanceFromLB :: "LoadBalancer \<Rightarrow> string \<Rightarrow> LoadBalancer" where
  "removeInstanceFromLB lb iid =
     (case first_index (\<lambda>instance. InstanceId_i instance = iid) (Instances lb) of
        None \<Rightarrow> lb
      | Some index \<Rightarrow>
          lb\<lparr>Instances := take index (Instances lb) @ drop (index + 1) (Instances lb)\<rparr>)"

text \<open>The first state with the id is overwritten by the last state and the slice loses its
  last place; then the function returns.\<close>

definition removeInstanceStatesFromLoadBalancer :: "Server \<Rightarrow> string \<Rightarrow> string \<Rightarrow> Server" where
  "removeInstanceStatesFromLoadBalancer srv lb iid =
     (let a = slice_of (instanceStates srv) lb
      in case first_index (\<lambda>state. InstanceId state = iid) a of
           None \<Rightarrow> srv
         | Some i \<Rightarrow>
             srv\<lparr>instanceStates := (instanceStates srv)
                    (lb \<mapsto> take (length a - 1) (a[i := a ! (length a - 1)]))\<rparr>)"

text \<open>
  The loop works on the load balancer through its pointer, so what it has removed stays
  removed when a later id is unknown and the handler returns the error. After the loop the
  states are cleaned with \<^verbatim>\<open>instId\<close>, the loop's variable.
\<close>

definition deregisterInstancesFromLoadBalancer ::
  "Server \<Rightarrow> Values \<Rightarrow> string \<Rightarrow> Result \<times> Server" where
  "deregisterInstancesFromLoadBalancer srv req rid =
     (case validate req [''LoadBalancerName''] of
        Some err \<Rightarrow> (Fail err, srv)
      | None \<Rightarrow>
          (let lbName = Get req ''LoadBalancerName''
           in case lbExists srv lbName of
                Some err \<Rightarrow> (Fail err, srv)
              | None \<Rightarrow>
                  (case lbs srv lbName of
                     None \<Rightarrow> (Panic, srv)
                   | Some lb0 \<Rightarrow>
                       (case probe ''Instances.member.'' ''.InstanceId'' req
                               (\<lambda>i instId lb.
                                  case instanceExists srv instId of
                                    Some err \<Rightarrow> Inl (err, lb)
                                  | None \<Rightarrow> Inr (removeInstanceFromLB lb instId))
                               1 lb0 of
                          Inl (err, lb) \<Rightarrow> (Fail err, srv\<lparr>lbs := (lbs srv)(lbName \<mapsto> lb)\<rparr>)
                        | Inr (instId, lb) \<Rightarrow>
                            (Return (SimpleResp rid),
                             removeInstanceStatesFromLoadBalancer
                               (srv\<lparr>lbs := (lbs srv)(lbName \<mapsto> lb)\<rparr>) lbName instId)))))"

definition describeLoadBalancers :: "Server \<Rightarrow> Values \<Rightarrow> string \<Rightarrow> Result \<times> Server" where
  "describeLoadBalancers srv req rid =
     (case probe ''LoadBalancerNames.member.'' [] req
             (\<lambda>i lbName (u :: unit).
                (let key = ''LoadBalancerNames.member.'' @ dec i
                 in if Get req key \<noteq> []
                    then (case lbExists srv (Get req key) of
                            Some err \<Rightarrow> Inl err
                          | None \<Rightarrow> Inr ())
                    else Inr ()))
             1 () of
        Inl err \<Rightarrow> (Fail err, srv)
      | Inr _ \<Rightarrow> (Return (DescribeLoadBalancersResp (lbs srv)), srv))"

definition addTags :: "Server \<Rightarrow> Values \<Rightarrow> string \<Rightarrow> Result \<times> Server" where
  "addTags srv req rid =
     (let lbName = Get req ''LoadBalancerNames.member.1'';
          tags = probe_all ''Tags.member.'' ''.Key'' req
                   (\<lambda>i tagKey tags.
                      tags @ [\<lparr>Key = tagKey,
                               Value = Get req (''Tags.member.'' @ dec i @ ''.Value'')\<rparr>])
                   1 []
      in (Return (AddTagsResp ''fake-req-id''),
          (if dom (lbTags srv) = {}
           then srv\<lparr>lbTags := (lbTags srv)(lbName \<mapsto> tags)\<rparr>
           else srv\<lparr>lbTags := (lbTags srv)(lbName \<mapsto> slice_of (lbTags srv) lbName @ tags)\<rparr>)))"

definition describeTags :: "Server \<Rightarrow> Values \<Rightarrow> string \<Rightarrow> Result \<times> Server" where
  "describeTags srv req rid =
     (let lbName = Get req ''LoadBalancerNames.member.1'';
          lbTag = \<lparr>Tags = slice_of (lbTags srv) lbName, TagLoadBalancerName = lbName\<rparr>
      in (Return (DescribeTagsResp ''fake-req-id'' ''who knows!'' [lbTag]), srv))"

text \<open>
  The load balancer is read through \<^verbatim>\<open>srv.lbs[lbName]\<close> with no check: on a missing name
  the pointer is nil, and either the inner loop's \<^verbatim>\<open>range\<close> (when a listener was parsed)
  or the final assignment dereferences it. Nothing has been written before either.
\<close>

definition createLoadBalancerListeners ::
  "Server \<Rightarrow> Values \<Rightarrow> string \<Rightarrow> Result \<times> Server" where
  "createLoadBalancerListeners srv req rid =
     (let lbName = Get req ''LoadBalancerName'';
          listeners = Listeners (makeLoadBalancer req)
      in case lbs srv lbName of
           None \<Rightarrow> (Panic, srv)
         | Some lb \<Rightarrow>
             (if list_ex (\<lambda>listener.
                    list_ex (\<lambda>existingListener.
                       LoadBalancerPort listener = LoadBalancerPort existingListener)
                      (Listeners lb)) listeners
              then (Fail \<lparr>StatusCode = 400, Code = ''400'', Message = ''Bad Request''\<rparr>, srv)
              else (Return (SimpleResp []),
                    srv\<lparr>lbs := (lbs srv)(lbName \<mapsto> lb\<lparr>Listeners := listeners\<rparr>)\<rparr>)))"

text \<open>The loop that decides which listeners stay, with its flag \<^verbatim>\<open>deleteListener\<close>.\<close>

fun listenersToKeep :: "Listener list \<Rightarrow> int list \<Rightarrow> Listener list \<Rightarrow> Listener list" where
  "listenersToKeep [] lbPorts keep = keep"
| "listenersToKeep (listener # rest) lbPorts keep =
     (let deleteListener =
            list_ex (\<lambda>portToDelete. LoadBalancerPort listener = portToDelete) lbPorts
      in listenersToKeep rest lbPorts (if \<not> deleteListener then keep @ [listener] else keep))"

definition AccessPointNotFound :: Error where
  "AccessPointNotFound =
     \<lparr>StatusCode = 400, Code = ''AccessPointNotFound'',
      Message = ''The specified load balancer does not exist.''\<rparr>"

text \<open>A port that \<^verbatim>\<open>ParseInt\<close> refuses makes the handler panic.\<close>

definition deleteLoadBalancerListeners ::
  "Server \<Rightarrow> Values \<Rightarrow> string \<Rightarrow> Result \<times> Server" where
  "deleteLoadBalancerListeners srv req rid =
     (let lbName = Get req ''LoadBalancerName''
      in case lbs srv lbName of
           None \<Rightarrow> (Fail AccessPointNotFound, srv)
         | Some lb \<Rightarrow>
             (case probe ''LoadBalancerPorts.member.'' [] req
                     (\<lambda>i port lbPorts.
                        case ParseInt port of
                          Parsed portNumber \<Rightarrow> Inr (lbPorts @ [portNumber])
                        | ErrSyntax \<Rightarrow> Inl ()
                        | ErrRange _ \<Rightarrow> Inl ())
                     1 [] of
                Inl _ \<Rightarrow> (Panic, srv)
              | Inr (port, lbPorts) \<Rightarrow>
                  (Return (SimpleResp []),
                   srv\<lparr>lbs := (lbs srv)
                          (lbName \<mapsto> lb\<lparr>Listeners := listenersToKeep (Listeners lb) lbPorts []\<rparr>)\<rparr>)))"

definition setLoadBalancerListenerSSLCertificate ::
  "Server \<Rightarrow> Values \<Rightarrow> string \<Rightarrow> Result \<times> Server" where
  "setLoadBalancerListenerSSLCertificate srv req rid =
     (let lbName = Get req ''LoadBalancerName'';
          lbPort = Get req ''LoadBalancerPort'';
          lbSSLCertificateId = Get req ''SSLCertificateId''
      in case lbs srv lbName of
           None \<Rightarrow> (Fail AccessPointNotFound, srv)
         | Some lb \<Rightarrow>
             (case first_index (\<lambda>listener. Sprintf_d (LoadBalancerPort listener) = lbPort)
                     (Listeners lb) of
                Some i \<Rightarrow>
                  (Return (SimpleResp []),
                   srv\<lparr>lbs := (lbs srv)
                          (lbName \<mapsto> lb\<lparr>Listeners := (Listeners lb)
                             [i := (Listeners lb ! i)\<lparr>SSLCertificateId := lbSSLCertificateId\<rparr>]\<rparr>)\<rparr>)
              | None \<Rightarrow>
                  (Fail \<lparr>StatusCode = 400, Code = ''ListenerNotFound'',
                         Message = ''The load balancer does not have a listener configured at the specified port.''\<rparr>,
                   srv)))"

definition describeInstanceHealth :: "Server \<Rightarrow> Values \<Rightarrow> string \<Rightarrow> Result \<times> Server" where
  "describeInstanceHealth srv req rid =
     (case lbExists srv (Get req ''LoadBalancerName'') of
        Some err \<Rightarrow> (Fail err, srv)
      | None \<Rightarrow>
          (case probe ''Instances.member.'' ''.InstanceId'' req
                  (\<lambda>i instanceId states.
                     case instanceExists srv instanceId of
                       Some err \<Rightarrow> Inl err
                     | None \<Rightarrow>
                         Inr (states @ [\<lparr>Description = ''Instance is in pending state.'',
                                          InstanceId = instanceId, State = ''OutOfService'',
                                          ReasonCode = ''Instance''\<rparr>]))
                  1 (slice_of (instanceStates srv) (Get req ''LoadBalancerName'')) of
             Inl err \<Rightarrow> (Fail err, srv)
           | Inr (instanceId, states) \<Rightarrow> (Return (DescribeInstanceHealthResp states), srv)))"

subsection \<open>The health-check target\<close>

text \<open>
  The handler compiles two expressions, \<^verbatim>\<open>TCP:[\d]+\<close> and \<^verbatim>\<open>[\w]+:[\d]+\/+\<close>, and
  asks \<^verbatim>\<open>FindStringSubmatch\<close> whether the target holds a match anywhere. Both are a
  sequence of pieces, each a byte or a class, taken once or one or more times; a regular
  expression is kept as that sequence. The classes \<^verbatim>\<open>\d\<close> and \<^verbatim>\<open>\w\<close> are ASCII in Go.
\<close>

datatype atom = Lit char | Digit | Word

datatype piece = Once atom | Many atom

type_synonym regexp = "piece list"

definition is_word :: "char \<Rightarrow> bool" where
  "is_word c =
     (let n = (of_char c :: nat)
      in (48 \<le> n \<and> n \<le> 57) \<or> (65 \<le> n \<and> n \<le> 90) \<or> (97 \<le> n \<and> n \<le> 122) \<or> n = 95)"

fun atom_ok :: "atom \<Rightarrow> char \<Rightarrow> bool" where
  "atom_ok (Lit a) c = (c = a)"
| "atom_ok Digit c = is_digit c"
| "atom_ok Word c = is_word c"

text \<open>Whether the expression matches some prefix of the string.\<close>

fun match_here :: "regexp \<Rightarrow> string \<Rightarrow> bool" where
  "match_here [] s = True"
| "match_here (p # ps) [] = False"
| "match_here (Once a # ps) (c # cs) = (atom_ok a c \<and> match_here ps cs)"
| "match_here (Many a # ps) (c # cs) =
     (atom_ok a c \<and> (match_here ps cs \<or> match_here (Many a # ps) cs))"

text \<open>Whether \<^verbatim>\<open>FindStringSubmatch\<close> returns a match: one that starts at some position.\<close>

fun FindStringSubmatch :: "regexp \<Rightarrow> string \<Rightarrow> bool" where
  "FindStringSubmatch re [] = match_here re []"
| "FindStringSubmatch re (c # cs) = (match_here re (c # cs) \<or> FindStringSubmatch re cs)"

definition tcpReg :: regexp where
  "tcpReg = [Once (Lit CHR ''T''), Once (Lit CHR ''C''), Once (Lit CHR ''P''),
             Once (Lit CHR '':''), Many Digit]"

definition pathReg :: regexp where
  "pathReg = [Many Word, Once (Lit CHR '':''), Many Digit, Many (Lit CHR ''/'')]"

definition configureHealthCheck_required :: "string list" where
  "configureHealthCheck_required =
     [''LoadBalancerName'',
      ''HealthCheck.HealthyThreshold'',
      ''HealthCheck.Interval'',
      ''HealthCheck.Target'',
      ''HealthCheck.Timeout'',
      ''HealthCheck.UnhealthyThreshold'']"

definition bad_target :: Error where
  "bad_target =
     \<lparr>StatusCode = 400, Code = ''ValidationError'',
      Message = ''HealthCheck HTTP Target must specify a port followed by a path that begins with a slash. e.g. HTTP:80/ping/this/path''\<rparr>"

text \<open>
  The health check is stored through \<^verbatim>\<open>srv.lbs[name]\<close> with no check: on a missing name
  the assignment dereferences nil.
\<close>

definition configureHealthCheck :: "Server \<Rightarrow> Values \<Rightarrow> string \<Rightarrow> Result \<times> Server" where
  "configureHealthCheck srv req rid =
     (case validate req configureHealthCheck_required of
        Some err \<Rightarrow> (Fail err, srv)
      | None \<Rightarrow>
          (let target = Get req ''HealthCheck.Target''
           in if \<not> FindStringSubmatch tcpReg target \<and> \<not> FindStringSubmatch pathReg target
              then (Fail bad_target, srv)
              else
                (let healthCheck =
                       \<lparr>HealthyThreshold = Atoi (Get req ''HealthCheck.HealthyThreshold''),
                        Interval = Atoi (Get req ''HealthCheck.Interval''),
                        Target = target,
                        Timeout = Atoi (Get req ''HealthCheck.Timeout''),
                        UnhealthyThreshold = Atoi (Get req ''HealthCheck.UnhealthyThreshold'')\<rparr>
                 in case lbs srv (Get req ''LoadBalancerName'') of
                      None \<Rightarrow> (Panic, srv)
                    | Some lb \<Rightarrow>
                        (Return (ConfigureHealthCheckResp healthCheck),
                         srv\<lparr>lbs := (lbs srv)
                                (Get req ''LoadBalancerName'' \<mapsto> lb\<lparr>HealthCheck := healthCheck\<rparr>)\<rparr>))))"

subsection \<open>The dispatcher\<close>

definition actions :: "string \<rightharpoonup> (Server \<Rightarrow> Values \<Rightarrow> string \<Rightarrow> Result \<times> Server)" where
  "actions = map_of
     [(''CreateLoadBalancer'', createLoadBalancer),
      (''DeleteLoadBalancer'', deleteLoadBalancer),
      (''RegisterInstancesWithLoadBalancer'', registerInstancesWithLoadBalancer),
      (''DeregisterInstancesFromLoadBalancer'', deregisterInstancesFromLoadBalancer),
      (''DescribeLoadBalancers'', describeLoadBalancers),
      (''DescribeInstanceHealth'', describeInstanceHealth),
      (''ConfigureHealthCheck'', configureHealthCheck),
      (''AddTags'', addTags),
      (''DescribeTags'', describeTags),
      (''CreateLoadBalancerListeners'', createLoadBalancerListeners),
      (''DeleteLoadBalancerListeners'', deleteLoadBalancerListeners),
      (''SetLoadBalancerListenerSSLCertificate'', setLoadBalancerListenerSSLCertificate)]"

text \<open>
  One request, under the mutex. Every error a handler returns is an \<^verbatim>\<open>*elb.Error\<close>, which
  is written as the error envelope; a panic of the handler leaves \<^verbatim>\<open>serveHTTP\<close> as a
  panic, with the state as the handler left it.
\<close>

definition serveHTTP :: "Server \<Rightarrow> Values \<Rightarrow> Result \<times> Server" where
  "serveHTTP srv form =
     (case actions (Get form ''Action'') of
        None \<Rightarrow>
          (Fail \<lparr>StatusCode = 400, Code = ''InvalidParameterValue'',
                 Message = ''Unrecognized Action''\<rparr>, srv)
      | Some f \<Rightarrow>
          (let rid = ''req'' @ hex (reqId srv)
           in f (srv\<lparr>reqId := reqId srv + 1\<rparr>) form rid))"

subsection \<open>The test-control calls\<close>

datatype Outcome = Done | Panicked

definition NewInstance :: "Server \<Rightarrow> string \<times> Server" where
  "NewInstance srv =
     (let instId = ''i-'' @ dec (instCount srv + 1)
      in (instId, srv\<lparr>instCount := instCount srv + 1, instances := instances srv @ [instId]\<rparr>))"

text \<open>
  \<^verbatim>\<open>RemoveInstance\<close> ranges over the slice as it was at the start (\<^verbatim>\<open>arr\<close>, whose cells
  the loop overwrites) while \<^verbatim>\<open>srv.instances\<close> shrinks (its length is \<^verbatim>\<open>m\<close>), and does
  not leave the loop after a removal. A match at an index the shrunk slice no longer has
  is an index out of range.
\<close>

function RemoveInstance_loop :: "string \<Rightarrow> string list \<Rightarrow> nat \<Rightarrow> nat \<Rightarrow> Outcome \<times> string list" where
  "RemoveInstance_loop instId arr m i =
     (if i < length arr
      then (if arr ! i = instId
            then (if i < m
                  then RemoveInstance_loop instId (arr[i := arr ! (m - 1)]) (m - 1) (Suc i)
                  else (Panicked, take m arr))
            else RemoveInstance_loop instId arr m (Suc i))
      else (Done, take m arr))"
  by pat_completeness auto
termination
  by (relation "measure (\<lambda>(instId, arr, m, i). length arr - i)") auto

declare RemoveInstance_loop.simps [simp del]

definition RemoveInstance :: "Server \<Rightarrow> string \<Rightarrow> Outcome \<times> Server" where
  "RemoveInstance srv instId =
     (case RemoveInstance_loop instId (instances srv) (length (instances srv)) 0 of
        (outcome, left) \<Rightarrow> (outcome, srv\<lparr>instances := left\<rparr>))"

definition NewLoadBalancer :: "Server \<Rightarrow> string \<Rightarrow> Server" where
  "NewLoadBalancer srv name =
     srv\<lparr>lbs := (lbs srv)
       (name \<mapsto> \<lparr>AvailabilityZones = [], Subnets = [], SecurityGroups = [],
                  HealthCheck = \<lparr>HealthyThreshold = 0, Interval = 0, Target = [], Timeout = 0,
                                 UnhealthyThreshold = 0\<rparr>,
                  Listeners = [], Scheme = [], LoadBalancerName = name,
                  DNSName = name @ ''-some-aws-stuff.sa-east-1.amazonaws.com'',
                  Instances = []\<rparr>)\<rparr>"

definition RegisterInstance :: "Server \<Rightarrow> string \<Rightarrow> string \<Rightarrow> Server" where
  "RegisterInstance srv instId lbName =
     (case lbs srv lbName of
        None \<Rightarrow> srv
      | Some lb \<Rightarrow>
          srv\<lparr>lbs := (lbs srv)
                 (lbName \<mapsto> lb\<lparr>Instances := Instances lb @ [\<lparr>InstanceId_i = instId\<rparr>]\<rparr>),
              instanceStates := (instanceStates srv)
                 (lbName \<mapsto> slice_of (instanceStates srv) lbName @ [makeInstanceState instId])\<rparr>)"

text \<open>\<^verbatim>\<open>DeregisterInstance\<close> hands \<^verbatim>\<open>srv.lbs[lbName]\<close> to \<^verbatim>\<open>removeInstanceFromLB\<close> unchecked;
  a nil pointer is dereferenced there.\<close>

definition DeregisterInstance :: "Server \<Rightarrow> string \<Rightarrow> string \<Rightarrow> Outcome \<times> Server" where
  "DeregisterInstance srv instId lbName =
     (case lbs srv lbName of
        None \<Rightarrow> (Panicked, srv)
      | Some lb \<Rightarrow>
          (Done,
           removeInstanceStatesFromLoadBalancer
             (srv\<lparr>lbs := (lbs srv)(lbName \<mapsto> removeInstanceFromLB lb instId)\<rparr>) lbName instId))"

definition ChangeInstanceState :: "Server \<Rightarrow> string \<Rightarrow> InstanceState \<Rightarrow> Server" where
  "ChangeInstanceState srv lb state =
     (let states = slice_of (instanceStates srv) lb
      in case first_index (\<lambda>s. InstanceId s = InstanceId state) states of
           None \<Rightarrow> srv
         | Some i \<Rightarrow> srv\<lparr>instanceStates := (instanceStates srv)(lb \<mapsto> states[i := state])\<rparr>)"

subsection \<open>Everything that can happen to a server\<close>

datatype Call =
    Request Values
  | CallNewInstance
  | CallRemoveInstance string
  | CallNewLoadBalancer string
  | CallRemoveLoadBalancer string
  | CallRegisterInstance string string
  | CallDeregisterInstance string string
  | CallChangeInstanceState string InstanceState

text \<open>The state a call leaves behind, whatever it answered.\<close>

fun after :: "Server \<Rightarrow> Call \<Rightarrow> Server" where
  "after srv (Request form) = snd (serveHTTP srv form)"
| "after srv CallNewInstance = snd (NewInstance srv)"
| "after srv (CallRemoveInstance instId) = snd (RemoveInstance srv instId)"
| "after srv (CallNewLoadBalancer name) = NewLoadBalancer srv name"
| "after srv (CallRemoveLoadBalancer name) = RemoveLoadBalancer srv name"
| "after srv (CallRegisterInstance instId lbName) = RegisterInstance srv instId lbName"
| "after srv (CallDeregisterInstance instId lbName) = snd (DeregisterInstance srv instId lbName)"
| "after srv (CallChangeInstanceState lb state) = ChangeInstanceState srv lb state"

section \<open>The DNS simulator (package route53test)\<close>

text \<open>
  Modelled from the spec: the declarations of package \<^verbatim>\<open>route53\<close> are not part of the
  source at hand. A record set is a named resource record with associated routing data;
  the server reads its \<^verbatim>\<open>Name\<close> only, and the routing data stands for its other fields. A
  change has an \<^verbatim>\<open>Action\<close> and a \<^verbatim>\<open>Record\<close>.
\<close>

record ResourceRecordSet =
  Name :: string
  RoutingData :: string

record Change =
  Action :: string
  Record :: ResourceRecordSet

text \<open>
  The \<^verbatim>\<open>DELETE\<close> loop. \<^verbatim>\<open>range\<close> fixes the slice it walks when the loop starts: \<^verbatim>\<open>arr\<close>
  holds its cells and \<^verbatim>\<open>i\<close> runs over all of them, while \<^verbatim>\<open>srv.records\<close> is the first
  \<^verbatim>\<open>m\<close> cells. On a match, \<^verbatim>\<open>append(srv.records[:i], srv.records[i+1:]...)\<close> moves the
  cells behind \<^verbatim>\<open>i\<close> one place down inside the same array and shortens \<^verbatim>\<open>srv.records\<close>
  by one; the slice expression \<^verbatim>\<open>srv.records[i+1:]\<close> panics when \<^verbatim>\<open>i+1\<close> is beyond the
  length. The loop then goes on with \<^verbatim>\<open>i+1\<close>.
\<close>

function delete_loop ::
  "string \<Rightarrow> ResourceRecordSet list \<Rightarrow> nat \<Rightarrow> nat \<Rightarrow> Outcome \<times> ResourceRecordSet list" where
  "delete_loop name arr m i =
     (if i < length arr
      then (if Name (arr ! i) = name
            then (if Suc i \<le> m
                  then delete_loop name
                         (take i arr @ drop (Suc i) (take m arr) @ drop (m - 1) arr) (m - 1) (Suc i)
                  else (Panicked, take m arr))
            else delete_loop name arr m (Suc i))
      else (Done, take m arr))"
  by pat_completeness auto
termination
  by (relation "measure (\<lambda>(name, arr, m, i). length arr - i)") (auto simp: min_def)

declare delete_loop.simps [simp del]

text \<open>One change after the other; a panic ends the handler with the records as they are.\<close>

fun apply_changes :: "ResourceRecordSet list \<Rightarrow> Change list \<Rightarrow> Outcome \<times> ResourceRecordSet list" where
  "apply_changes records [] = (Done, records)"
| "apply_changes records (change # changes) =
     (if Action change = ''CREATE'' then apply_changes (records @ [Record change]) changes
      else if Action change = ''DELETE''
      then (case delete_loop (Name (Record change)) records (length records) 0 of
              (Panicked, left) \<Rightarrow> (Panicked, left)
            | (Done, left) \<Rightarrow> apply_changes left changes)
      else apply_changes records changes)"

record route53_Server =
  route53_reqId :: nat
  records :: "ResourceRecordSet list"

text \<open>
  The handlers' results. The body of a change request either decodes to its changes or
  does not (\<open>None\<close>); the decoder's error is returned as it is. The response's
  \<^verbatim>\<open>SubmittedAt\<close> is the clock's and is left out.
\<close>

datatype route53_Result =
    ListResourceRecordSetsResponse "ResourceRecordSet list"
  | ChangeResourceRecordSetsResponse string string
  | DecodeError
  | route53_Panic

definition listResourceRecordSets :: "route53_Server \<Rightarrow> route53_Result \<times> route53_Server" where
  "listResourceRecordSets srv = (ListResourceRecordSetsResponse (records srv), srv)"

definition changeResourceRecordSets ::
  "route53_Server \<Rightarrow> Change list option \<Rightarrow> route53_Result \<times> route53_Server" where
  "changeResourceRecordSets srv body =
     (case body of
        None \<Rightarrow> (DecodeError, srv)
      | Some changes \<Rightarrow>
          (case apply_changes (records srv) changes of
             (Panicked, left) \<Rightarrow> (route53_Panic, srv\<lparr>records := left\<rparr>)
           | (Done, left) \<Rightarrow>
               (ChangeResourceRecordSetsResponse ''some-id'' ''some-status'',
                srv\<lparr>records := left\<rparr>)))"

section \<open>Properties\<close>

subsection \<open>Rules for running the model on a concrete input\<close>

lemmas eval =
  Get_def Let_def char_of_def bit_Suc_0_iff digit_char_def dec.simps ToUpper_def
  Atoi_def ParseInt_def ParseUint_def is_digit_def digit_val_def maxUint64_def
  probe.simps probe_all.simps slice_of_def

lemma dec_1: "dec 1 = ''1''" "dec (Suc 0) = ''1''"
  by (simp_all add: eval)

subsection \<open>Requests and servers used as concrete inputs\<close>

definition req_no_name :: Values where
  "req_no_name =
     [(''Action'', [''CreateLoadBalancer'']),
      (''AvailabilityZones.member.1'', [''us-east-1a'']),
      (''Listeners.member.1.InstancePort'', [''8080'']),
      (''Listeners.member.1.InstanceProtocol'', [''http'']),
      (''Listeners.member.1.Protocol'', [''http'']),
      (''Listeners.member.1.LoadBalancerPort'', [''80''])]"

definition req_create :: Values where
  "req_create =
     [(''Action'', [''CreateLoadBalancer'']),
      (''LoadBalancerName'', [''lb-1'']),
      (''AvailabilityZones.member.1'', [''us-east-1a'']),
      (''Listeners.member.1.InstancePort'', [''8080'']),
      (''Listeners.member.1.InstanceProtocol'', [''http'']),
      (''Listeners.member.1.Protocol'', [''http'']),
      (''Listeners.member.1.LoadBalancerPort'', [''80''])]"

definition listener_80 :: Listener where
  "listener_80 = \<lparr>Protocol = ''HTTP'', InstanceProtocol = ''HTTP'', SSLCertificateId = [],
                   LoadBalancerPort = 80, InstancePort = 8080\<rparr>"

definition listener_443 :: Listener where
  "listener_443 = \<lparr>Protocol = ''HTTPS'', InstanceProtocol = ''HTTP'', SSLCertificateId = [],
                    LoadBalancerPort = 443, InstancePort = 8080\<rparr>"

definition req_add_443 :: Values where
  "req_add_443 =
     [(''Action'', [''CreateLoadBalancerListeners'']),
      (''LoadBalancerName'', [''lb-1'']),
      (''Listeners.member.1.InstancePort'', [''8080'']),
      (''Listeners.member.1.InstanceProtocol'', [''http'']),
      (''Listeners.member.1.Protocol'', [''https'']),
      (''Listeners.member.1.LoadBalancerPort'', [''443''])]"

text \<open>The server after one load balancer \<^verbatim>\<open>lb-1\<close>, listening on port 80, has been created.\<close>

definition srv_lb :: Server where
  "srv_lb = snd (createLoadBalancer NewServer req_create ''req0'')"

lemma Listeners_req_create: "Listeners (makeLoadBalancer req_create) = [listener_80]"
  by (simp add: makeLoadBalancer_def makeListener_def req_create_def listener_80_def eval)

lemma Listeners_req_add_443: "Listeners (makeLoadBalancer req_add_443) = [listener_443]"
  by (simp add: makeLoadBalancer_def makeListener_def req_add_443_def listener_443_def eval)

lemma createLoadBalancer_passes:
  assumes "validateComposition req [(''AvailabilityZones.member.1'', ''Subnets.member.1'')] = None"
      and "validate req createLoadBalancer_required = None"
  shows "createLoadBalancer srv req rid =
           (Return (CreateLoadBalancerResp
                      (Get req ''LoadBalancerName'' @ ''-some-aws-stuff.us-east-1.elb.amazonaws.com'')),
            srv\<lparr>lbs := (lbs srv)(Get req ''LoadBalancerName'' \<mapsto>
                    (makeLoadBalancer req)\<lparr>DNSName :=
                       Get req ''LoadBalancerName'' @ ''-some-aws-stuff.us-east-1.elb.amazonaws.com''\<rparr>)\<rparr>)"
  using assms by (simp add: createLoadBalancer_def Let_def)

lemma req_create_passes:
  "validateComposition req_create [(''AvailabilityZones.member.1'', ''Subnets.member.1'')] = None"
  "validate req_create createLoadBalancer_required = None"
  "Get req_create ''LoadBalancerName'' = ''lb-1''"
  by (simp_all add: req_create_def createLoadBalancer_required_def Get_def)

lemma srv_lb_Listeners: "map_option Listeners (lbs srv_lb ''lb-1'') = Some [listener_80]"
  by (simp add: srv_lb_def createLoadBalancer_passes [OF req_create_passes(1,2)]
        req_create_passes(3) Listeners_req_create)

lemma srv_lb_fields:
  "instances srv_lb = []" "instanceStates srv_lb = Map.empty" "lbTags srv_lb = Map.empty"
  "instCount srv_lb = 0"
  "lbs srv_lb = [''lb-1'' \<mapsto> (makeLoadBalancer req_create)
      \<lparr>DNSName := ''lb-1-some-aws-stuff.us-east-1.elb.amazonaws.com''\<rparr>]"
  by (simp_all add: srv_lb_def createLoadBalancer_passes [OF req_create_passes(1,2)]
        req_create_passes(3) NewServer_def)

lemma Instances_req_create: "Instances (makeLoadBalancer req_create) = []"
  by (simp add: makeLoadBalancer_def)

text \<open>The same server after \<^verbatim>\<open>NewInstance\<close> has made the instance \<^verbatim>\<open>i-1\<close>.\<close>

definition srv_inst :: Server where
  "srv_inst = snd (NewInstance srv_lb)"

lemma srv_inst_fields:
  "instances srv_inst = [''i-1'']" "instanceStates srv_inst = Map.empty"
  "lbs srv_inst = lbs srv_lb"
  by (simp_all add: srv_inst_def NewInstance_def srv_lb_fields eval)

text \<open>And after \<^verbatim>\<open>RegisterInstance\<close> has registered \<^verbatim>\<open>i-1\<close> with \<^verbatim>\<open>lb-1\<close>.\<close>

definition srv_reg :: Server where
  "srv_reg = RegisterInstance srv_inst ''i-1'' ''lb-1''"

lemma srv_reg_fields:
  "instances srv_reg = [''i-1'']"
  "instanceStates srv_reg = [''lb-1'' \<mapsto> [makeInstanceState ''i-1'']]"
  "lbs srv_reg = [''lb-1'' \<mapsto> (makeLoadBalancer req_create)
      \<lparr>DNSName := ''lb-1-some-aws-stuff.us-east-1.elb.amazonaws.com'',
        Instances := [\<lparr>InstanceId_i = ''i-1''\<rparr>]\<rparr>]"
  by (simp_all add: srv_reg_def RegisterInstance_def srv_inst_fields srv_lb_fields
        Instances_req_create slice_of_def)

definition req_register :: Values where
  "req_register =
     [(''Action'', [''RegisterInstancesWithLoadBalancer'']),
      (''LoadBalancerName'', [''lb-1'']),
      (''Instances.member.1.InstanceId'', [''i-1''])]"

definition req_deregister :: Values where
  "req_deregister =
     [(''Action'', [''DeregisterInstancesFromLoadBalancer'']),
      (''LoadBalancerName'', [''lb-1'']),
      (''Instances.member.1.InstanceId'', [''i-1''])]"

definition req_create3 :: Values where
  "req_create3 =
     [(''Action'', [''CreateLoadBalancer'']),
      (''LoadBalancerName'', [''lb-3'']),
      (''Subnets.member.1'', [''subnet-1'']),
      (''Listeners.member.1.InstancePort'', [''8080'']),
      (''Listeners.member.1.InstanceProtocol'', [''http'']),
      (''Listeners.member.1.Protocol'', [''http'']),
      (''Listeners.member.1.LoadBalancerPort'', [''80'']),
      (''Listeners.member.2.InstancePort'', [''8080'']),
      (''Listeners.member.2.InstanceProtocol'', [''http'']),
      (''Listeners.member.2.Protocol'', [''https'']),
      (''Listeners.member.2.LoadBalancerPort'', [''443'']),
      (''Listeners.member.3.InstancePort'', [''9090'']),
      (''Listeners.member.3.InstanceProtocol'', [''tcp'']),
      (''Listeners.member.3.Protocol'', [''tcp'']),
      (''Listeners.member.3.LoadBalancerPort'', [''9000''])]"

definition listener_9000 :: Listener where
  "listener_9000 = \<lparr>Protocol = ''TCP'', InstanceProtocol = ''TCP'', SSLCertificateId = [],
                     LoadBalancerPort = 9000, InstancePort = 9090\<rparr>"

definition srv_lb3 :: Server where
  "srv_lb3 = snd (createLoadBalancer NewServer req_create3 ''req0'')"

definition req_delete_443 :: Values where
  "req_delete_443 =
     [(''Action'', [''DeleteLoadBalancerListeners'']),
      (''LoadBalancerName'', [''lb-3'']),
      (''LoadBalancerPorts.member.1'', [''443''])]"

definition req_health :: Values where
  "req_health =
     [(''Action'', [''ConfigureHealthCheck'']),
      (''LoadBalancerName'', [''lb-1'']),
      (''HealthCheck.HealthyThreshold'', [''3'']),
      (''HealthCheck.Interval'', [''30'']),
      (''HealthCheck.Target'', [''TCP:80'']),
      (''HealthCheck.Timeout'', [''5'']),
      (''HealthCheck.UnhealthyThreshold'', [''2''])]"

lemmas eval_re = tcpReg_def pathReg_def is_word_def is_digit_def

subsection \<open>The probing loop\<close>

text \<open>The loop ends only on an empty probe, so the variable it leaves behind is empty.\<close>

lemma probe_leaves_empty:
  "probe pre suf v body i acc = Inr (x, acc') \<Longrightarrow> x = []"
proof (induction pre suf v body i acc rule: probe.induct)
  case (1 pre suf v body i acc)
  show ?case
  proof (cases "Get v (pre @ dec i @ suf) = []")
    case True
    with "1.prems" show ?thesis by (simp add: probe.simps [of pre suf v body i acc])
  next
    case False
    with "1.prems" obtain acc1 where b: "body i (Get v (pre @ dec i @ suf)) acc = Inr acc1"
      and r: "probe pre suf v body (Suc i) acc1 = Inr (x, acc')"
      by (auto simp: probe.simps [of pre suf v body i acc] Let_def split: sum.splits)
    from "1.IH" [OF refl False b r] show ?thesis .
  qed
qed

lemma probe_all_append_aux:
  "body = (\<lambda>i x r. r @ [x]) \<Longrightarrow>
   probe_all pre suf v body i (a @ b) = a @ probe_all pre suf v body i b"
proof (induction pre suf v body i b rule: probe_all.induct)
  case (1 pre suf v body i b)
  show ?case
  proof (cases "Get v (pre @ dec i @ suf) = []")
    case True
    then show ?thesis
      by (simp add: probe_all.simps [of pre suf v body i])
  next
    case False
    define x where "x = Get v (pre @ dec i @ suf)"
    have l: "probe_all pre suf v body i (a @ b) = probe_all pre suf v body (Suc i) (body i x (a @ b))"
      using False by (simp add: probe_all.simps [of pre suf v body i "a @ b"] x_def)
    have r: "probe_all pre suf v body i b = probe_all pre suf v body (Suc i) (body i x b)"
      using False by (simp add: probe_all.simps [of pre suf v body i b] x_def)
    from "1.IH" [OF refl False "1.prems"] "1.prems" show ?thesis
      unfolding l r by (simp add: x_def)
  qed
qed

lemma getParameters_unfold:
  "probe_all pre suf v (\<lambda>i x r. r @ [x]) i [] =
     (if Get v (pre @ dec i @ suf) = [] then []
      else Get v (pre @ dec i @ suf) # probe_all pre suf v (\<lambda>i x r. r @ [x]) (Suc i) [])"
  using probe_all_append_aux [OF refl, of pre suf v "Suc i" "[Get v (pre @ dec i @ suf)]" "[]"]
  by (simp add: probe_all.simps [of pre suf v _ i "[]"] Let_def)

lemma probe_ports:
  "body = (\<lambda>i port lbPorts.
             case ParseInt port of
               Parsed portNumber \<Rightarrow> Inr (lbPorts @ [portNumber])
             | ErrSyntax \<Rightarrow> Inl ()
             | ErrRange _ \<Rightarrow> Inl ()) \<Longrightarrow>
   probe pre suf v body i acc =
     (if \<forall>p \<in> set (probe_all pre suf v (\<lambda>i x r. r @ [x]) i []). \<exists>n. ParseInt p = Parsed n
      then Inr ([], acc @ map Atoi (probe_all pre suf v (\<lambda>i x r. r @ [x]) i []))
      else Inl ())"
proof (induction pre suf v body i acc rule: probe.induct)
  case (1 pre suf v body i acc)
  define x where "x = Get v (pre @ dec i @ suf)"
  have unf: "probe pre suf v body i acc =
     (if x = [] then Inr (x, acc)
      else case body i x acc of Inl e \<Rightarrow> Inl e | Inr acc' \<Rightarrow> probe pre suf v body (Suc i) acc')"
    by (simp add: probe.simps [of pre suf v body i acc] x_def)
  note gp = getParameters_unfold [of pre suf v i, folded x_def]
  show ?case
  proof (cases "x = []")
    case True
    then show ?thesis unfolding unf gp by simp
  next
    case False
    show ?thesis
    proof (cases "ParseInt x")
      case (Parsed n)
      with "1.prems" have b: "body i x acc = Inr (acc @ [n])"
        by simp
      from "1.IH" [OF refl False [unfolded x_def] b [unfolded x_def] "1.prems"] False b Parsed
      show ?thesis unfolding unf gp by (simp add: Atoi_def)
    next
      case ErrSyntax
      with "1.prems" have b: "body i x acc = Inl ()" by simp
      from False b ErrSyntax show ?thesis unfolding unf gp by simp
    next
      case (ErrRange n)
      with "1.prems" have b: "body i x acc = Inl ()" by simp
      from False b ErrRange show ?thesis unfolding unf gp by simp
    qed
  qed
qed

lemma Listeners_req_create3:
  "Listeners (makeLoadBalancer req_create3) = [listener_80, listener_443, listener_9000]"
  by (simp add: makeLoadBalancer_def makeListener_def req_create3_def listener_80_def
        listener_443_def listener_9000_def eval)

lemma req_create3_passes:
  "validateComposition req_create3 [(''AvailabilityZones.member.1'', ''Subnets.member.1'')] = None"
  "validate req_create3 createLoadBalancer_required = None"
  "Get req_create3 ''LoadBalancerName'' = ''lb-3''"
  by (simp_all add: req_create3_def createLoadBalancer_required_def Get_def)

lemma srv_lb3_lbs:
  "lbs srv_lb3 = [''lb-3'' \<mapsto> (makeLoadBalancer req_create3)
      \<lparr>DNSName := ''lb-3-some-aws-stuff.us-east-1.elb.amazonaws.com''\<rparr>]"
  by (simp add: srv_lb3_def createLoadBalancer_passes [OF req_create3_passes(1,2)]
        req_create3_passes(3) NewServer_def)

lemma req_delete_443_ports:
  "getParameters ''LoadBalancerPorts.member.'' req_delete_443 = [''443'']"
  "Get req_delete_443 ''LoadBalancerName'' = ''lb-3''"
  by (simp_all add: getParameters_def req_delete_443_def eval)

lemma Atoi_443: "ParseInt ''443'' = Parsed 443" "Atoi ''443'' = 443"
  by (simp_all add: eval)

subsection \<open>CreateLoadBalancerListeners\<close>

text \<open>
  C1 asks that the new listeners be appended and the stored ones stay. On \<^verbatim>\<open>lb-1\<close> with its
  listener on port 80, a request for a listener on port 443 collides with nothing and is
  answered with success; afterwards the listener on port 443 is the only one, the listener
  on port 80 is gone: the handler assigns the parsed listeners instead of appending them.
\<close>

theorem createLoadBalancerListeners_overwrites:
  "map_option Listeners (lbs srv_lb ''lb-1'') = Some [listener_80]
   \<and> fst (createLoadBalancerListeners srv_lb req_add_443 ''req1'') = Return (SimpleResp [])
   \<and> map_option Listeners
         (lbs (snd (createLoadBalancerListeners srv_lb req_add_443 ''req1'')) ''lb-1'')
       = Some [listener_443]"
proof -
  have name: "Get req_add_443 ''LoadBalancerName'' = ''lb-1''"
    by (simp add: req_add_443_def Get_def)
  obtain lb where lb: "lbs srv_lb ''lb-1'' = Some lb" "Listeners lb = [listener_80]"
    using srv_lb_Listeners by auto
  show ?thesis
    by (simp add: createLoadBalancerListeners_def name lb Listeners_req_add_443
          listener_80_def listener_443_def)
qed

subsection \<open>DeregisterInstancesFromLoadBalancer\<close>

text \<open>
  C2 asks that the health state of every listed instance be removed with the instance. On
  \<^verbatim>\<open>lb-1\<close> with the instance \<^verbatim>\<open>i-1\<close> and its state, a request that lists \<^verbatim>\<open>i-1\<close> succeeds
  and removes the instance; the state of \<^verbatim>\<open>i-1\<close> is still there. The handler cleans the
  states once, after the loop, with the loop's variable, which is empty by then.
\<close>

theorem deregisterInstances_keeps_state:
  "map_option Instances (lbs srv_reg ''lb-1'') = Some [\<lparr>InstanceId_i = ''i-1''\<rparr>]
   \<and> instanceStates srv_reg ''lb-1'' = Some [makeInstanceState ''i-1'']
   \<and> fst (deregisterInstancesFromLoadBalancer srv_reg req_deregister ''req1'')
     = Return (SimpleResp ''req1'')
   \<and> map_option Instances
         (lbs (snd (deregisterInstancesFromLoadBalancer srv_reg req_deregister ''req1'')) ''lb-1'')
     = Some []
   \<and> instanceStates (snd (deregisterInstancesFromLoadBalancer srv_reg req_deregister ''req1''))
         ''lb-1''
     = Some [makeInstanceState ''i-1'']"
  by (simp add: deregisterInstancesFromLoadBalancer_def req_deregister_def lbExists_def
        instanceExists_def srv_reg_fields removeInstanceFromLB_def
        removeInstanceStatesFromLoadBalancer_def makeInstanceState_def eval)

subsection \<open>RegisterInstancesWithLoadBalancer\<close>

text \<open>Whatever a successful request lists, the one state it appends has the empty id.\<close>

lemma registerInstances_state_general:
  assumes "registerInstancesWithLoadBalancer srv req rid = (Return r, srv')"
  shows "instanceStates srv' (Get req ''LoadBalancerName'')
           = Some (slice_of (instanceStates srv) (Get req ''LoadBalancerName'')
                   @ [makeInstanceState []])"
  using assms
  by (auto simp: registerInstancesWithLoadBalancer_def Let_def
      split: option.splits sum.splits prod.splits dest!: probe_leaves_empty)

text \<open>
  C4 asks that the one health state appended by a call carry the last instance id the
  loop went through. A request that lists the known instance \<^verbatim>\<open>i-1\<close> succeeds and appends
  the instance; the state it appends is the default pending one, and its instance id is
  empty, not \<^verbatim>\<open>i-1\<close>: the state is made from the loop's variable after the loop has run
  it empty.
\<close>

theorem registerInstances_state_without_id:
  "fst (registerInstancesWithLoadBalancer srv_inst req_register ''req1'')
     = Return (RegisterInstancesWithLoadBalancerResp [\<lparr>InstanceId_i = ''i-1''\<rparr>])
   \<and> map_option Instances
         (lbs (snd (registerInstancesWithLoadBalancer srv_inst req_register ''req1'')) ''lb-1'')
     = Some [\<lparr>InstanceId_i = ''i-1''\<rparr>]
   \<and> instanceStates (snd (registerInstancesWithLoadBalancer srv_inst req_register ''req1''))
         ''lb-1''
     = Some [\<lparr>Description = ''Instance is in pending state.'', InstanceId = [],
               State = ''OutOfService'', ReasonCode = ''Instance''\<rparr>]"
  by (simp add: registerInstancesWithLoadBalancer_def req_register_def lbExists_def
        instanceExists_def srv_inst_fields srv_lb_fields Instances_req_create
        makeInstanceState_def eval)

subsection \<open>Required fields of CreateLoadBalancer\<close>

lemma validate_find:
  "validate req fs =
     (case find (\<lambda>f. Get req f = []) fs of
        None \<Rightarrow> None
      | Some f \<Rightarrow> Some \<lparr>StatusCode = 400, Code = ''ValidationError'',
                         Message = f @ '' is required.''\<rparr>)"
  by (induction fs) simp_all

text \<open>Two CreateLoadBalancer requests that break the composition rule: one with neither an
  availability zone nor a subnet, one with both.\<close>

definition req_only_action :: Values where
  "req_only_action = [(''Action'', [''CreateLoadBalancer''])]"

definition req_both_zones :: Values where
  "req_both_zones =
     [(''Action'', [''CreateLoadBalancer'']),
      (''AvailabilityZones.member.1'', [''us-east-1a'']),
      (''Subnets.member.1'', [''subnet-1''])]"

lemma actions_CreateLoadBalancer: "actions ''CreateLoadBalancer'' = Some createLoadBalancer"
  by (simp add: actions_def)

text \<open>
  C5, as the code has it. A CreateLoadBalancer request in which some required field is
  empty is answered with a \<^verbatim>\<open>ValidationError\<close> of status 400 and leaves the server as it
  was, but for the request counter that the dispatcher has advanced. The composition check
  runs before the required fields, so the message is the composition check's when
  \<^verbatim>\<open>AvailabilityZones.member.1\<close> and \<^verbatim>\<open>Subnets.member.1\<close> are both present (only one may be
  specified) or both absent (either must be specified); when exactly one of them is
  present, the message names the first empty field in the order of the required list.
\<close>

theorem createLoadBalancer_missing_required:
  assumes "find (\<lambda>f. Get req f = []) createLoadBalancer_required = Some field"
  shows "createLoadBalancer srv req rid =
           (Fail \<lparr>StatusCode = 400, Code = ''ValidationError'',
                  Message =
                    (if Get req ''AvailabilityZones.member.1'' \<noteq> []
                        \<and> Get req ''Subnets.member.1'' \<noteq> []
                     then ''Only one of AvailabilityZones.member.1 or Subnets.member.1 may be specified''
                     else if Get req ''AvailabilityZones.member.1'' = []
                        \<and> Get req ''Subnets.member.1'' = []
                     then ''Either AvailabilityZones.member.1 or Subnets.member.1 must be specified''
                     else field @ '' is required.'')\<rparr>, srv)
       \<and> (Get req ''Action'' = ''CreateLoadBalancer'' \<longrightarrow>
            serveHTTP srv req =
              (Fail \<lparr>StatusCode = 400, Code = ''ValidationError'',
                     Message =
                       (if Get req ''AvailabilityZones.member.1'' \<noteq> []
                           \<and> Get req ''Subnets.member.1'' \<noteq> []
                        then ''Only one of AvailabilityZones.member.1 or Subnets.member.1 may be specified''
                        else if Get req ''AvailabilityZones.member.1'' = []
                           \<and> Get req ''Subnets.member.1'' = []
                        then ''Either AvailabilityZones.member.1 or Subnets.member.1 must be specified''
                        else field @ '' is required.'')\<rparr>,
               srv\<lparr>reqId := reqId srv + 1\<rparr>))"
proof -
  have h: "createLoadBalancer s req r =
           (Fail \<lparr>StatusCode = 400, Code = ''ValidationError'',
                  Message =
                    (if Get req ''AvailabilityZones.member.1'' \<noteq> []
                        \<and> Get req ''Subnets.member.1'' \<noteq> []
                     then ''Only one of AvailabilityZones.member.1 or Subnets.member.1 may be specified''
                     else if Get req ''AvailabilityZones.member.1'' = []
                        \<and> Get req ''Subnets.member.1'' = []
                     then ''Either AvailabilityZones.member.1 or Subnets.member.1 must be specified''
                     else field @ '' is required.'')\<rparr>, s)" for s r
    using assms by (simp add: createLoadBalancer_def validate_find)
  show ?thesis
    by (simp add: h serveHTTP_def actions_CreateLoadBalancer Let_def)
qed

theorem createLoadBalancer_missing_required_witness:
  "find (\<lambda>f. Get req_no_name f = []) createLoadBalancer_required = Some ''LoadBalancerName''
   \<and> serveHTTP NewServer req_no_name
       = (Fail \<lparr>StatusCode = 400, Code = ''ValidationError'',
                Message = ''LoadBalancerName is required.''\<rparr>, NewServer\<lparr>reqId := 1\<rparr>)
   \<and> find (\<lambda>f. Get req_both_zones f = []) createLoadBalancer_required
       = Some ''Listeners.member.1.InstancePort''
   \<and> serveHTTP NewServer req_both_zones
       = (Fail \<lparr>StatusCode = 400, Code = ''ValidationError'',
                Message = ''Only one of AvailabilityZones.member.1 or Subnets.member.1 may be specified''\<rparr>,
          NewServer\<lparr>reqId := 1\<rparr>)"
proof -
  have a: "find (\<lambda>f. Get req_no_name f = []) createLoadBalancer_required = Some ''LoadBalancerName''"
    by (simp add: createLoadBalancer_required_def req_no_name_def Get_def)
  have a': "Get req_no_name ''Action'' = ''CreateLoadBalancer''"
    "Get req_no_name ''AvailabilityZones.member.1'' = ''us-east-1a''"
    "Get req_no_name ''Subnets.member.1'' = []"
    by (simp_all add: req_no_name_def Get_def)
  have b: "find (\<lambda>f. Get req_both_zones f = []) createLoadBalancer_required
             = Some ''Listeners.member.1.InstancePort''"
    by (simp add: createLoadBalancer_required_def req_both_zones_def Get_def)
  have b': "Get req_both_zones ''Action'' = ''CreateLoadBalancer''"
    "Get req_both_zones ''AvailabilityZones.member.1'' = ''us-east-1a''"
    "Get req_both_zones ''Subnets.member.1'' = ''subnet-1''"
    by (simp_all add: req_both_zones_def Get_def)
  have r: "reqId NewServer = 0" by (simp add: NewServer_def)
  from createLoadBalancer_missing_required [OF a, of NewServer "''req0''"]
       createLoadBalancer_missing_required [OF b, of NewServer "''req0''"]
  show ?thesis
    by (simp add: a a' b b' r)
qed

text \<open>
  C5 as stated fails on the CreateLoadBalancer request that carries nothing but its action:
  its first missing required field is \<^verbatim>\<open>Listeners.member.1.InstancePort\<close>, and the message
  the dispatcher sends back is the composition check's.
\<close>

theorem createLoadBalancer_composition_first:
  "Get req_only_action ''Action'' = ''CreateLoadBalancer''
   \<and> find (\<lambda>f. Get req_only_action f = []) createLoadBalancer_required
       = Some ''Listeners.member.1.InstancePort''
   \<and> serveHTTP NewServer req_only_action
       = (Fail \<lparr>StatusCode = 400, Code = ''ValidationError'',
                Message = ''Either AvailabilityZones.member.1 or Subnets.member.1 must be specified''\<rparr>,
          NewServer\<lparr>reqId := 1\<rparr>)"
  by (simp add: createLoadBalancer_required_def createLoadBalancer_def serveHTTP_def
        actions_CreateLoadBalancer req_only_action_def Get_def NewServer_def)

subsection \<open>ChangeResourceRecordSets\<close>

definition rec_a1 :: ResourceRecordSet where
  "rec_a1 = \<lparr>Name = ''a.example.com'', RoutingData = ''10.0.0.1''\<rparr>"

definition rec_a2 :: ResourceRecordSet where
  "rec_a2 = \<lparr>Name = ''a.example.com'', RoutingData = ''10.0.0.2''\<rparr>"

definition rec_b :: ResourceRecordSet where
  "rec_b = \<lparr>Name = ''b.example.com'', RoutingData = ''10.0.0.3''\<rparr>"

definition delete_a :: Change where
  "delete_a = \<lparr>Action = ''DELETE'', Record = \<lparr>Name = ''a.example.com'', RoutingData = []\<rparr>\<rparr>"

text \<open>
  C7 asks that a \<^verbatim>\<open>DELETE\<close> remove every record of the name. With two records of the name
  next to each other and a third record behind them, the loop removes the first, moves the
  second into its place and goes on behind it: the second stays. With the two records
  alone, the loop meets the stale copy of the second in the last cell and slices beyond
  the shortened list: the handler panics.
\<close>

theorem delete_leaves_adjacent_duplicate:
  "changeResourceRecordSets \<lparr>route53_reqId = 0, records = [rec_a1, rec_a2, rec_b]\<rparr>
       (Some [delete_a])
     = (ChangeResourceRecordSetsResponse ''some-id'' ''some-status'',
        \<lparr>route53_reqId = 0, records = [rec_a2, rec_b]\<rparr>)
   \<and> changeResourceRecordSets \<lparr>route53_reqId = 0, records = [rec_a1, rec_a2]\<rparr>
       (Some [delete_a])
     = (route53_Panic, \<lparr>route53_reqId = 0, records = [rec_a2]\<rparr>)"
  by (simp add: changeResourceRecordSets_def delete_loop.simps rec_a1_def rec_a2_def rec_b_def
        delete_a_def)

subsection \<open>DeleteLoadBalancerListeners\<close>

lemma listenersToKeep_filter:
  "listenersToKeep ls lbPorts keep = keep @ filter (\<lambda>l. LoadBalancerPort l \<notin> set lbPorts) ls"
  by (induction ls arbitrary: keep) (auto simp: list_ex_iff Let_def)

text \<open>
  C8. On an existing load balancer, with every supplied port a number \<^verbatim>\<open>ParseInt\<close> accepts,
  DeleteLoadBalancerListeners succeeds and leaves the load balancer with its listeners
  filtered: the listeners whose port is among the supplied ones are gone, the others are
  there as they were and in their order. Nothing else of the server changes.
\<close>

theorem deleteLoadBalancerListeners_removes_exactly:
  assumes "lbs srv (Get req ''LoadBalancerName'') = Some lb"
      and "\<forall>p \<in> set (getParameters ''LoadBalancerPorts.member.'' req). \<exists>n. ParseInt p = Parsed n"
  shows "deleteLoadBalancerListeners srv req rid =
           (Return (SimpleResp []),
            srv\<lparr>lbs := (lbs srv)(Get req ''LoadBalancerName'' \<mapsto>
                    lb\<lparr>Listeners :=
                         filter (\<lambda>l. LoadBalancerPort l
                                        \<notin> Atoi ` set (getParameters ''LoadBalancerPorts.member.'' req))
                                (Listeners lb)\<rparr>)\<rparr>)"
  using assms
  by (simp add: deleteLoadBalancerListeners_def Let_def getParameters_def
        probe_ports [OF refl] listenersToKeep_filter)

theorem deleteLoadBalancerListeners_removes_exactly_witness:
  "map_option Listeners (lbs srv_lb3 ''lb-3'') = Some [listener_80, listener_443, listener_9000]
   \<and> fst (deleteLoadBalancerListeners srv_lb3 req_delete_443 ''req1'') = Return (SimpleResp [])
   \<and> map_option Listeners
         (lbs (snd (deleteLoadBalancerListeners srv_lb3 req_delete_443 ''req1'')) ''lb-3'')
       = Some [listener_80, listener_9000]"
proof -
  have lb: "lbs srv_lb3 (Get req_delete_443 ''LoadBalancerName'')
              = Some ((makeLoadBalancer req_create3)
                        \<lparr>DNSName := ''lb-3-some-aws-stuff.us-east-1.elb.amazonaws.com''\<rparr>)"
    by (simp add: srv_lb3_lbs req_delete_443_ports)
  have ports: "\<forall>p \<in> set (getParameters ''LoadBalancerPorts.member.'' req_delete_443).
                 \<exists>n. ParseInt p = Parsed n"
    by (simp add: req_delete_443_ports Atoi_443)
  show ?thesis
    unfolding deleteLoadBalancerListeners_removes_exactly [OF lb ports]
    by (simp add: srv_lb3_lbs req_delete_443_ports Atoi_443 Listeners_req_create3
          listener_80_def listener_443_def listener_9000_def)
qed

subsection \<open>A load balancer that is not there\<close>

lemma actions_simps:
  "actions ''CreateLoadBalancerListeners'' = Some createLoadBalancerListeners"
  "actions ''ConfigureHealthCheck'' = Some configureHealthCheck"
  by (simp_all add: actions_def)

text \<open>
  C9. A CreateLoadBalancerListeners request that names a load balancer the server does not
  have makes the handler panic, and so does a ConfigureHealthCheck request that names one
  and has passed the required fields and the target check; the dispatcher passes the panic
  on. No error envelope is returned, and the load balancers are as before.
\<close>

theorem missing_load_balancer_panics:
  assumes "lbs srv (Get req ''LoadBalancerName'') = None"
  shows "createLoadBalancerListeners srv req rid = (Panic, srv)
       \<and> (Get req ''Action'' = ''CreateLoadBalancerListeners''
            \<longrightarrow> serveHTTP srv req = (Panic, srv\<lparr>reqId := reqId srv + 1\<rparr>))
       \<and> (validate req configureHealthCheck_required = None
            \<and> (FindStringSubmatch tcpReg (Get req ''HealthCheck.Target'')
                 \<or> FindStringSubmatch pathReg (Get req ''HealthCheck.Target''))
            \<longrightarrow> configureHealthCheck srv req rid = (Panic, srv)
              \<and> (Get req ''Action'' = ''ConfigureHealthCheck''
                   \<longrightarrow> serveHTTP srv req = (Panic, srv\<lparr>reqId := reqId srv + 1\<rparr>)))"
  using assms
  by (auto simp: createLoadBalancerListeners_def configureHealthCheck_def serveHTTP_def
        actions_simps Let_def)

theorem missing_load_balancer_panics_witness:
  "serveHTTP NewServer req_add_443 = (Panic, NewServer\<lparr>reqId := 1\<rparr>)
   \<and> serveHTTP NewServer req_health = (Panic, NewServer\<lparr>reqId := 1\<rparr>)"
proof -
  have a: "lbs NewServer (Get req_add_443 ''LoadBalancerName'') = None"
          "Get req_add_443 ''Action'' = ''CreateLoadBalancerListeners''"
    by (simp_all add: NewServer_def req_add_443_def Get_def)
  have h: "lbs NewServer (Get req_health ''LoadBalancerName'') = None"
          "Get req_health ''Action'' = ''ConfigureHealthCheck''"
          "validate req_health configureHealthCheck_required = None"
          "FindStringSubmatch tcpReg (Get req_health ''HealthCheck.Target'')"
    by (simp_all add: NewServer_def req_health_def Get_def configureHealthCheck_required_def
          eval_re)
  have r: "reqId NewServer + 1 = 1" by (simp add: NewServer_def)
  from missing_load_balancer_panics [OF a(1), of "''req0''"] a(2)
       missing_load_balancer_panics [OF h(1), of "''req0''"] h(2,3,4) r
  show ?thesis by simp
qed

subsection \<open>DeleteLoadBalancer\<close>

definition req_tags :: Values where
  "req_tags =
     [(''Action'', [''AddTags'']),
      (''LoadBalancerNames.member.1'', [''lb-1'']),
      (''Tags.member.1.Key'', [''env'']),
      (''Tags.member.1.Value'', [''test''])]"

definition srv_tag :: Server where
  "srv_tag = snd (addTags srv_reg req_tags ''req1'')"

definition req_delete :: Values where
  "req_delete = [(''Action'', [''DeleteLoadBalancer'']), (''LoadBalancerName'', [''lb-1''])]"

definition req_describe_health :: Values where
  "req_describe_health =
     [(''Action'', [''DescribeInstanceHealth'']), (''LoadBalancerName'', [''lb-1''])]"

definition req_describe_tags :: Values where
  "req_describe_tags =
     [(''Action'', [''DescribeTags'']), (''LoadBalancerNames.member.1'', [''lb-1''])]"

lemma srv_tag_fields:
  "instanceStates srv_tag = [''lb-1'' \<mapsto> [makeInstanceState ''i-1'']]"
  "lbTags srv_tag = [''lb-1'' \<mapsto> [\<lparr>Key = ''env'', Value = ''test''\<rparr>]]"
  "lbs srv_tag = lbs srv_reg"
  by (simp_all add: srv_tag_def addTags_def req_tags_def srv_reg_fields srv_reg_def
        RegisterInstance_def srv_inst_def NewInstance_def srv_lb_fields eval)

lemma describeInstanceHealth_no_ids:
  assumes "lbs srv (Get req ''LoadBalancerName'') = Some lb"
      and "Get req ''Instances.member.1.InstanceId'' = []"
  shows "describeInstanceHealth srv req rid =
           (Return (DescribeInstanceHealthResp
                      (slice_of (instanceStates srv) (Get req ''LoadBalancerName''))), srv)"
  using assms
  by (simp add: describeInstanceHealth_def lbExists_def
        probe.simps [of "''Instances.member.''" "''.InstanceId''" req _ "Suc 0"] dec_1)

text \<open>
  C10. Deleting the load balancer \<^verbatim>\<open>N\<close>, by a DeleteLoadBalancer request or by
  \<^verbatim>\<open>RemoveLoadBalancer\<close>, takes \<^verbatim>\<open>N\<close> out of the map of load balancers and leaves the health
  states and the tags stored under \<^verbatim>\<open>N\<close> (and under every other name) as they were. When
  \<^verbatim>\<open>N\<close> is created again, by a valid CreateLoadBalancer request or by \<^verbatim>\<open>NewLoadBalancer\<close>,
  DescribeInstanceHealth for \<^verbatim>\<open>N\<close> answers with the health states stored before the
  deletion and DescribeTags with the tags stored before it.
\<close>

theorem delete_keeps_states_and_tags:
  assumes del: "(Get dreq ''LoadBalancerName'' = N \<and> N \<noteq> []
                   \<and> srv1 = snd (deleteLoadBalancer srv dreq rid1))
                \<or> srv1 = RemoveLoadBalancer srv N"
      and cre: "(validateComposition creq [(''AvailabilityZones.member.1'', ''Subnets.member.1'')] = None
                   \<and> validate creq createLoadBalancer_required = None
                   \<and> Get creq ''LoadBalancerName'' = N
                   \<and> srv2 = snd (createLoadBalancer srv1 creq rid2))
                \<or> srv2 = NewLoadBalancer srv1 N"
      and hreq: "Get hreq ''LoadBalancerName'' = N" "Get hreq ''Instances.member.1.InstanceId'' = []"
      and treq: "Get treq ''LoadBalancerNames.member.1'' = N"
  shows "lbs srv1 = (lbs srv)(N := None)
       \<and> instanceStates srv1 = instanceStates srv \<and> lbTags srv1 = lbTags srv
       \<and> describeInstanceHealth srv2 hreq rid3
           = (Return (DescribeInstanceHealthResp (slice_of (instanceStates srv) N)), srv2)
       \<and> describeTags srv2 treq rid4
           = (Return (DescribeTagsResp ''fake-req-id'' ''who knows!''
                        [\<lparr>Tags = slice_of (lbTags srv) N, TagLoadBalancerName = N\<rparr>]), srv2)"
proof -
  have s1: "srv1 = srv\<lparr>lbs := (lbs srv)(N := None)\<rparr>"
    using del by (auto simp: deleteLoadBalancer_def RemoveLoadBalancer_def)
  have s2: "\<exists>lb. lbs srv2 N = Some lb" "instanceStates srv2 = instanceStates srv1"
           "lbTags srv2 = lbTags srv1"
    using cre by (auto simp: createLoadBalancer_passes NewLoadBalancer_def)
  from s2(1) obtain lb where lb: "lbs srv2 (Get hreq ''LoadBalancerName'') = Some lb"
    using hreq(1) by auto
  show ?thesis
    using describeInstanceHealth_no_ids [OF lb hreq(2), of rid3] s1 s2(2,3) hreq(1) treq
    by (simp add: describeTags_def slice_of_def)
qed

text \<open>The server with a health state and a tag under \<^verbatim>\<open>lb-1\<close>, after \<^verbatim>\<open>lb-1\<close> has been
  deleted, and after it has been created again.\<close>

definition srv_deleted :: Server where
  "srv_deleted = snd (deleteLoadBalancer srv_tag req_delete ''req2'')"

definition srv_again :: Server where
  "srv_again = snd (createLoadBalancer srv_deleted req_create ''req3'')"

theorem delete_keeps_states_and_tags_witness:
  "lbs srv_tag ''lb-1'' \<noteq> None \<and> lbs srv_deleted ''lb-1'' = None
   \<and> fst (describeInstanceHealth srv_again req_describe_health ''req4'')
       = Return (DescribeInstanceHealthResp [makeInstanceState ''i-1''])
   \<and> fst (describeTags srv_again req_describe_tags ''req5'')
       = Return (DescribeTagsResp ''fake-req-id'' ''who knows!''
                   [\<lparr>Tags = [\<lparr>Key = ''env'', Value = ''test''\<rparr>], TagLoadBalancerName = ''lb-1''\<rparr>])"
proof -
  have del: "(Get req_delete ''LoadBalancerName'' = ''lb-1'' \<and> ''lb-1'' \<noteq> []
                \<and> srv_deleted = snd (deleteLoadBalancer srv_tag req_delete ''req2''))
             \<or> srv_deleted = RemoveLoadBalancer srv_tag ''lb-1''"
    by (simp add: srv_deleted_def req_delete_def Get_def)
  have cre: "(validateComposition req_create [(''AvailabilityZones.member.1'', ''Subnets.member.1'')] = None
                \<and> validate req_create createLoadBalancer_required = None
                \<and> Get req_create ''LoadBalancerName'' = ''lb-1''
                \<and> srv_again = snd (createLoadBalancer srv_deleted req_create ''req3''))
             \<or> srv_again = NewLoadBalancer srv_deleted ''lb-1''"
    by (rule disjI1) (intro conjI req_create_passes srv_again_def)
  have hreq: "Get req_describe_health ''LoadBalancerName'' = ''lb-1''"
             "Get req_describe_health ''Instances.member.1.InstanceId'' = []"
    by (simp_all add: req_describe_health_def Get_def)
  have treq: "Get req_describe_tags ''LoadBalancerNames.member.1'' = ''lb-1''"
    by (simp add: req_describe_tags_def Get_def)
  from delete_keeps_states_and_tags [OF del cre hreq treq, of "''req4''" "''req5''"]
  show ?thesis
    by (simp add: srv_tag_fields srv_reg_fields slice_of_def)
qed

subsection \<open>The health-check target\<close>

text \<open>What the two expressions find, said without the matcher: \<^verbatim>\<open>match_here\<close> on a piece
  taken once or many times, a search as a match behind some prefix.\<close>

lemma match_here_Once:
  "match_here (Once a # ps) s \<longleftrightarrow> (\<exists>c cs. s = c # cs \<and> atom_ok a c \<and> match_here ps cs)"
  by (cases s) auto

lemma match_here_Many:
  "match_here (Many a # ps) s \<longleftrightarrow>
     (\<exists>xs rest. s = xs @ rest \<and> xs \<noteq> [] \<and> (\<forall>c \<in> set xs. atom_ok a c) \<and> match_here ps rest)"
proof (induction s)
  case Nil
  show ?case by simp
next
  case (Cons c cs)
  show ?case
  proof
    assume "match_here (Many a # ps) (c # cs)"
    then have ok: "atom_ok a c" and more: "match_here ps cs \<or> match_here (Many a # ps) cs"
      by simp_all
    from more show "\<exists>xs rest. c # cs = xs @ rest \<and> xs \<noteq> [] \<and> (\<forall>c \<in> set xs. atom_ok a c)
                      \<and> match_here ps rest"
    proof
      assume "match_here ps cs"
      with ok have "c # cs = [c] @ cs \<and> [c] \<noteq> [] \<and> (\<forall>d \<in> set [c]. atom_ok a d) \<and> match_here ps cs"
        by simp
      then show ?thesis by blast
    next
      assume "match_here (Many a # ps) cs"
      with Cons.IH obtain xs rest where
        "cs = xs @ rest" "xs \<noteq> []" "\<forall>d \<in> set xs. atom_ok a d" "match_here ps rest"
        by blast
      with ok have "c # cs = (c # xs) @ rest \<and> c # xs \<noteq> []
                      \<and> (\<forall>d \<in> set (c # xs). atom_ok a d) \<and> match_here ps rest"
        by simp
      then show ?thesis by blast
    qed
  next
    assume "\<exists>xs rest. c # cs = xs @ rest \<and> xs \<noteq> [] \<and> (\<forall>c \<in> set xs. atom_ok a c)
              \<and> match_here ps rest"
    then obtain xs rest where
      s: "c # cs = xs @ rest" and ne: "xs \<noteq> []" and ok: "\<forall>d \<in> set xs. atom_ok a d"
      and m: "match_here ps rest"
      by blast
    from ne obtain x xs' where xs: "xs = x # xs'" by (cases xs) auto
    with s have c: "x = c" "cs = xs' @ rest" by simp_all
    show "match_here (Many a # ps) (c # cs)"
    proof (cases "xs' = []")
      case True
      with c m ok xs show ?thesis by simp
    next
      case False
      with c m ok xs have "match_here (Many a # ps) cs"
        using Cons.IH by auto
      with c ok xs show ?thesis by simp
    qed
  qed
qed

lemma FindStringSubmatch_iff:
  "FindStringSubmatch re s \<longleftrightarrow> (\<exists>pre suf. s = pre @ suf \<and> match_here re suf)"
proof (induction s)
  case Nil
  show ?case by simp
next
  case (Cons c cs)
  show ?case
  proof
    assume "FindStringSubmatch re (c # cs)"
    then consider "match_here re (c # cs)" | "FindStringSubmatch re cs" by auto
    then show "\<exists>pre suf. c # cs = pre @ suf \<and> match_here re suf"
    proof cases
      case 1
      then have "c # cs = [] @ (c # cs) \<and> match_here re (c # cs)" by simp
      then show ?thesis by blast
    next
      case 2
      with Cons.IH obtain pre suf where "cs = pre @ suf" "match_here re suf" by blast
      then have "c # cs = (c # pre) @ suf \<and> match_here re suf" by simp
      then show ?thesis by blast
    qed
  next
    assume "\<exists>pre suf. c # cs = pre @ suf \<and> match_here re suf"
    then obtain pre suf where s: "c # cs = pre @ suf" and m: "match_here re suf" by blast
    show "FindStringSubmatch re (c # cs)"
    proof (cases pre)
      case Nil
      with s m have "match_here re (c # cs)" by simp
      then show ?thesis by simp
    next
      case (Cons p pre')
      with s have "cs = pre' @ suf" by simp
      with m Cons.IH show ?thesis by auto
    qed
  qed
qed

lemma match_here_ManyI:
  "xs \<noteq> [] \<Longrightarrow> \<forall>c \<in> set xs. atom_ok a c \<Longrightarrow> match_here ps rest \<Longrightarrow>
   match_here (Many a # ps) (xs @ rest)"
  using match_here_Many [of a ps "xs @ rest"] by blast

lemma FindStringSubmatchI: "match_here re suf \<Longrightarrow> FindStringSubmatch re (pre @ suf)"
  using FindStringSubmatch_iff [of re "pre @ suf"] by blast

lemma tcpReg_found:
  "FindStringSubmatch tcpReg s \<longleftrightarrow>
     (\<exists>pre ds post. s = pre @ ''TCP:'' @ ds @ post \<and> ds \<noteq> [] \<and> (\<forall>c \<in> set ds. is_digit c))"
proof
  assume "FindStringSubmatch tcpReg s"
  then obtain pre suf where s: "s = pre @ suf" and m: "match_here tcpReg suf"
    using FindStringSubmatch_iff by blast
  from m obtain ds post where "suf = ''TCP:'' @ ds @ post" "ds \<noteq> []" "\<forall>c \<in> set ds. is_digit c"
    by (auto simp: tcpReg_def match_here_Once match_here_Many)
  with s have "s = pre @ ''TCP:'' @ ds @ post \<and> ds \<noteq> [] \<and> (\<forall>c \<in> set ds. is_digit c)"
    by simp
  then show "\<exists>pre ds post. s = pre @ ''TCP:'' @ ds @ post \<and> ds \<noteq> [] \<and> (\<forall>c \<in> set ds. is_digit c)"
    by blast
next
  assume "\<exists>pre ds post. s = pre @ ''TCP:'' @ ds @ post \<and> ds \<noteq> [] \<and> (\<forall>c \<in> set ds. is_digit c)"
  then obtain pre ds post where
    s: "s = pre @ ''TCP:'' @ ds @ post" and ds: "ds \<noteq> []" "\<forall>c \<in> set ds. is_digit c"
    by blast
  from ds have "match_here [Many Digit] (ds @ post)"
    by (intro match_here_ManyI) simp_all
  then have "match_here tcpReg (''TCP:'' @ ds @ post)"
    by (simp add: tcpReg_def)
  then show "FindStringSubmatch tcpReg s"
    unfolding s by (rule FindStringSubmatchI)
qed

lemma pathReg_found:
  "FindStringSubmatch pathReg s \<longleftrightarrow>
     (\<exists>pre ws ds post. s = pre @ ws @ '':'' @ ds @ ''/'' @ post
        \<and> ws \<noteq> [] \<and> (\<forall>c \<in> set ws. is_word c) \<and> ds \<noteq> [] \<and> (\<forall>c \<in> set ds. is_digit c))"
proof
  assume "FindStringSubmatch pathReg s"
  then obtain pre suf where s: "s = pre @ suf" and m: "match_here pathReg suf"
    using FindStringSubmatch_iff by blast
  from m obtain ws r1 where
    ws: "suf = ws @ r1" "ws \<noteq> []" "\<forall>c \<in> set ws. is_word c"
    and m1: "match_here [Once (Lit CHR '':''), Many Digit, Many (Lit CHR ''/'')] r1"
    by (auto simp: pathReg_def match_here_Many)
  from m1 obtain r2 where r1: "r1 = CHR '':'' # r2"
    and m2: "match_here [Many Digit, Many (Lit CHR ''/'')] r2"
    by (auto simp: match_here_Once)
  from m2 obtain ds r3 where
    ds: "r2 = ds @ r3" "ds \<noteq> []" "\<forall>c \<in> set ds. is_digit c"
    and m3: "match_here [Many (Lit CHR ''/'')] r3"
    by (auto simp: match_here_Many)
  from m3 obtain sl r4 where "r3 = sl @ r4" "sl \<noteq> []" "\<forall>c \<in> set sl. c = CHR ''/''"
    by (auto simp: match_here_Many)
  then obtain post where r3: "r3 = CHR ''/'' # post"
    by (cases sl) auto
  from s ws r1 ds r3
  have "s = pre @ ws @ '':'' @ ds @ ''/'' @ post
          \<and> ws \<noteq> [] \<and> (\<forall>c \<in> set ws. is_word c) \<and> ds \<noteq> [] \<and> (\<forall>c \<in> set ds. is_digit c)"
    by simp
  then show "\<exists>pre ws ds post. s = pre @ ws @ '':'' @ ds @ ''/'' @ post
        \<and> ws \<noteq> [] \<and> (\<forall>c \<in> set ws. is_word c) \<and> ds \<noteq> [] \<and> (\<forall>c \<in> set ds. is_digit c)"
    by blast
next
  assume "\<exists>pre ws ds post. s = pre @ ws @ '':'' @ ds @ ''/'' @ post
        \<and> ws \<noteq> [] \<and> (\<forall>c \<in> set ws. is_word c) \<and> ds \<noteq> [] \<and> (\<forall>c \<in> set ds. is_digit c)"
  then obtain pre ws ds post where
    s: "s = pre @ ws @ '':'' @ ds @ ''/'' @ post"
    and ws: "ws \<noteq> []" "\<forall>c \<in> set ws. is_word c"
    and ds: "ds \<noteq> []" "\<forall>c \<in> set ds. is_digit c"
    by blast
  have "match_here [Many (Lit CHR ''/'')] (''/'' @ post)"
    by (intro match_here_ManyI) simp_all
  with ds have "match_here [Many Digit, Many (Lit CHR ''/'')] (ds @ ''/'' @ post)"
    by (intro match_here_ManyI) simp_all
  then have "match_here [Once (Lit CHR '':''), Many Digit, Many (Lit CHR ''/'')]
               ('':'' @ ds @ ''/'' @ post)"
    by simp
  with ws have "match_here pathReg (ws @ '':'' @ ds @ ''/'' @ post)"
    unfolding pathReg_def by (intro match_here_ManyI) simp_all
  then show "FindStringSubmatch pathReg s"
    unfolding s by (rule FindStringSubmatchI)
qed

text \<open>
  The two patterns of the specification, \<^verbatim>\<open>TCP:<port>\<close> and
  \<^verbatim>\<open><PROTOCOL>:<port>/<path>\<close>, read as patterns for the whole target: \<^verbatim>\<open>TCP:\<close> and
  then digits to the end; or a protocol word up to the first colon, digits up to the first
  slash behind it, and a path behind the slash.
\<close>

definition whole_TCP_port :: "string \<Rightarrow> bool" where
  "whole_TCP_port t = (take 4 t = ''TCP:'' \<and> drop 4 t \<noteq> [] \<and> list_all is_digit (drop 4 t))"

definition whole_protocol_port_path :: "string \<Rightarrow> bool" where
  "whole_protocol_port_path t =
     (let protocol = takeWhile (\<lambda>c. c \<noteq> CHR '':'') t;
          port = takeWhile (\<lambda>c. c \<noteq> CHR ''/'') (drop (length protocol + 1) t)
      in protocol \<noteq> [] \<and> list_all is_word protocol
         \<and> take 1 (drop (length protocol) t) = '':''
         \<and> port \<noteq> [] \<and> list_all is_digit port
         \<and> take 1 (drop (length protocol + 1 + length port) t) = ''/'')"

text \<open>A ConfigureHealthCheck request for \<^verbatim>\<open>lb-1\<close> with a given target, and the health
  check it asks for.\<close>

definition req_health_of :: "string \<Rightarrow> Values" where
  "req_health_of target =
     [(''Action'', [''ConfigureHealthCheck'']),
      (''LoadBalancerName'', [''lb-1'']),
      (''HealthCheck.HealthyThreshold'', [''3'']),
      (''HealthCheck.Interval'', [''30'']),
      (''HealthCheck.Target'', [target]),
      (''HealthCheck.Timeout'', [''5'']),
      (''HealthCheck.UnhealthyThreshold'', [''2''])]"

definition check_of :: "string \<Rightarrow> HealthCheck" where
  "check_of target =
     \<lparr>HealthyThreshold = 3, Interval = 30, Target = target, Timeout = 5, UnhealthyThreshold = 2\<rparr>"

text \<open>
  C6, as the code has it. A ConfigureHealthCheck request with all required fields, for a
  load balancer that exists, is accepted if and only if its target contains, at some
  place, \<^verbatim>\<open>TCP:\<close> and one or more digits, or one or more word characters, a colon, one or
  more digits and a slash: the two expressions are searched for in the target, not
  matched against the whole of it. An accepted request stores the health check, with the target as it was
  sent and nothing else of the server changed; a rejected one is answered with the
  \<^verbatim>\<open>ValidationError\<close> and leaves the server as it was. The witness runs \<^verbatim>\<open>TCP:80\<close>,
  \<^verbatim>\<open>HTTP:80/ping\<close> (accepted) and \<^verbatim>\<open>HTTP80\<close> (rejected).
\<close>

theorem configureHealthCheck_target:
  assumes "validate req configureHealthCheck_required = None"
      and "lbs srv (Get req ''LoadBalancerName'') = Some lb"
  shows "configureHealthCheck srv req rid =
     (if (\<exists>pre ds post. Get req ''HealthCheck.Target'' = pre @ ''TCP:'' @ ds @ post
             \<and> ds \<noteq> [] \<and> (\<forall>c \<in> set ds. is_digit c))
         \<or> (\<exists>pre ws ds post. Get req ''HealthCheck.Target'' = pre @ ws @ '':'' @ ds @ ''/'' @ post
             \<and> ws \<noteq> [] \<and> (\<forall>c \<in> set ws. is_word c) \<and> ds \<noteq> [] \<and> (\<forall>c \<in> set ds. is_digit c))
      then (Return (ConfigureHealthCheckResp
                      \<lparr>HealthyThreshold = Atoi (Get req ''HealthCheck.HealthyThreshold''),
                       Interval = Atoi (Get req ''HealthCheck.Interval''),
                       Target = Get req ''HealthCheck.Target'',
                       Timeout = Atoi (Get req ''HealthCheck.Timeout''),
                       UnhealthyThreshold = Atoi (Get req ''HealthCheck.UnhealthyThreshold'')\<rparr>),
            srv\<lparr>lbs := (lbs srv)(Get req ''LoadBalancerName'' \<mapsto>
                    lb\<lparr>HealthCheck :=
                         \<lparr>HealthyThreshold = Atoi (Get req ''HealthCheck.HealthyThreshold''),
                          Interval = Atoi (Get req ''HealthCheck.Interval''),
                          Target = Get req ''HealthCheck.Target'',
                          Timeout = Atoi (Get req ''HealthCheck.Timeout''),
                          UnhealthyThreshold = Atoi (Get req ''HealthCheck.UnhealthyThreshold'')\<rparr>\<rparr>)\<rparr>)
      else (Fail bad_target, srv))"
  unfolding tcpReg_found [symmetric] pathReg_found [symmetric]
  using assms by (simp add: configureHealthCheck_def Let_def)

lemma req_health_of_fields:
  "validate (req_health_of target) configureHealthCheck_required = (if target = [] then
      Some \<lparr>StatusCode = 400, Code = ''ValidationError'', Message = ''HealthCheck.Target is required.''\<rparr> else None)"
  "Get (req_health_of target) ''LoadBalancerName'' = ''lb-1''"
  "Get (req_health_of target) ''HealthCheck.Target'' = target"
  "Atoi (Get (req_health_of target) ''HealthCheck.HealthyThreshold'') = 3"
  "Atoi (Get (req_health_of target) ''HealthCheck.Interval'') = 30"
  "Atoi (Get (req_health_of target) ''HealthCheck.Timeout'') = 5"
  "Atoi (Get (req_health_of target) ''HealthCheck.UnhealthyThreshold'') = 2"
  by (simp_all add: req_health_of_def configureHealthCheck_required_def eval)

lemma srv_lb_has_lb:
  "lbs srv_lb (Get (req_health_of target) ''LoadBalancerName'')
     = Some ((makeLoadBalancer req_create)
               \<lparr>DNSName := ''lb-1-some-aws-stuff.us-east-1.elb.amazonaws.com''\<rparr>)"
  by (simp add: req_health_of_fields srv_lb_fields)

lemma whole_patterns_examples:
  "whole_TCP_port ''TCP:80''" "whole_protocol_port_path ''HTTP:80/ping''"
  "\<not> whole_TCP_port ''HTTP80''" "\<not> whole_protocol_port_path ''HTTP80''"
  by (simp_all add: whole_TCP_port_def whole_protocol_port_path_def is_digit_def is_word_def)

theorem configureHealthCheck_target_witness:
  "fst (configureHealthCheck srv_lb (req_health_of ''TCP:80'') ''req1'')
     = Return (ConfigureHealthCheckResp (check_of ''TCP:80''))
   \<and> map_option HealthCheck
         (lbs (snd (configureHealthCheck srv_lb (req_health_of ''TCP:80'') ''req1'')) ''lb-1'')
     = Some (check_of ''TCP:80'')
   \<and> fst (configureHealthCheck srv_lb (req_health_of ''HTTP:80/ping'') ''req1'')
     = Return (ConfigureHealthCheckResp (check_of ''HTTP:80/ping''))
   \<and> map_option HealthCheck
         (lbs (snd (configureHealthCheck srv_lb (req_health_of ''HTTP:80/ping'') ''req1'')) ''lb-1'')
     = Some (check_of ''HTTP:80/ping'')
   \<and> configureHealthCheck srv_lb (req_health_of ''HTTP80'') ''req1'' = (Fail bad_target, srv_lb)"
proof -
  have v: "validate (req_health_of ''TCP:80'') configureHealthCheck_required = None"
          "validate (req_health_of ''HTTP:80/ping'') configureHealthCheck_required = None"
          "validate (req_health_of ''HTTP80'') configureHealthCheck_required = None"
    by (simp_all add: req_health_of_fields)
  note a = configureHealthCheck_target [OF v(1) srv_lb_has_lb, of "''req1''",
             folded tcpReg_found pathReg_found]
  note b = configureHealthCheck_target [OF v(2) srv_lb_has_lb, of "''req1''",
             folded tcpReg_found pathReg_found]
  note c = configureHealthCheck_target [OF v(3) srv_lb_has_lb, of "''req1''",
             folded tcpReg_found pathReg_found]
  show ?thesis
    unfolding a b c
    by (simp add: req_health_of_fields eval_re check_of_def)
qed

text \<open>
  C6 as stated fails on the target \<^verbatim>\<open>xTCP:80x\<close>: it is neither \<^verbatim>\<open>TCP:<port>\<close> nor
  \<^verbatim>\<open><PROTOCOL>:<port>/<path>\<close>, and the handler accepts and stores it, because it holds
  \<^verbatim>\<open>TCP:80\<close> inside.
\<close>

theorem configureHealthCheck_accepts_inside:
  "\<not> whole_TCP_port ''xTCP:80x'' \<and> \<not> whole_protocol_port_path ''xTCP:80x''
   \<and> fst (configureHealthCheck srv_lb (req_health_of ''xTCP:80x'') ''req1'')
       = Return (ConfigureHealthCheckResp (check_of ''xTCP:80x''))
   \<and> map_option HealthCheck
         (lbs (snd (configureHealthCheck srv_lb (req_health_of ''xTCP:80x'') ''req1'')) ''lb-1'')
       = Some (check_of ''xTCP:80x'')"
proof -
  have w: "\<not> whole_TCP_port ''xTCP:80x''" "\<not> whole_protocol_port_path ''xTCP:80x''"
    by (simp_all add: whole_TCP_port_def whole_protocol_port_path_def is_digit_def is_word_def)
  show ?thesis
    by (simp add: w configureHealthCheck_def Let_def eval_re req_health_of_fields srv_lb_fields
          check_of_def)
qed

subsection \<open>Listener ports of one load balancer\<close>

text \<open>The invariant: on every load balancer the listeners' ports are pairwise different.\<close>

definition ports_distinct :: "Server \<Rightarrow> bool" where
  "ports_distinct srv =
     (\<forall>name lb. lbs srv name = Some lb \<longrightarrow> distinct (map LoadBalancerPort (Listeners lb)))"

text \<open>
  The condition on a call: a CreateLoadBalancer or CreateLoadBalancerListeners request
  does not repeat a port among the listeners it carries. Every other call is free.
\<close>

definition carries_distinct_ports :: "Call \<Rightarrow> bool" where
  "carries_distinct_ports call =
     (case call of
        Request form \<Rightarrow>
          Get form ''Action'' = ''CreateLoadBalancer''
            \<or> Get form ''Action'' = ''CreateLoadBalancerListeners''
          \<longrightarrow> distinct (map LoadBalancerPort (Listeners (makeLoadBalancer form)))
      | _ \<Rightarrow> True)"

lemma ports_distinct_get:
  "ports_distinct srv \<Longrightarrow> lbs srv name = Some lb \<Longrightarrow> distinct (map LoadBalancerPort (Listeners lb))"
  by (auto simp: ports_distinct_def)

text \<open>What holds of the loop's variables before the loop and is kept by its body holds when
  the loop ends; what the body establishes when it leaves holds when the loop is left.\<close>

lemma probe_rule:
  assumes "P acc"
      and "\<And>i x a a'. P a \<Longrightarrow> body i x a = Inr a' \<Longrightarrow> P a'"
      and "\<And>i x a e. P a \<Longrightarrow> body i x a = Inl e \<Longrightarrow> Q e"
  shows "case probe pre suf v body i acc of Inl e \<Rightarrow> Q e | Inr (x, a) \<Rightarrow> P a"
  using assms
proof (induction pre suf v body i acc rule: probe.induct)
  case (1 pre suf v body i acc)
  note P = "1.prems"(1) and stay = "1.prems"(2) and leave = "1.prems"(3)
  show ?case
  proof (cases "Get v (pre @ dec i @ suf) = []")
    case True
    with P show ?thesis by (simp add: probe.simps [of pre suf v body i acc])
  next
    case False
    show ?thesis
    proof (cases "body i (Get v (pre @ dec i @ suf)) acc")
      case (Inl e)
      with False leave [OF P Inl] show ?thesis
        by (simp add: probe.simps [of pre suf v body i acc])
    next
      case (Inr a')
      from "1.IH" [OF refl False Inr stay [OF P Inr] stay leave] False Inr show ?thesis
        by (simp add: probe.simps [of pre suf v body i acc])
    qed
  qed
qed

lemma removeInstanceFromLB_Listeners [simp]:
  "Listeners (removeInstanceFromLB lb iid) = Listeners lb"
  by (simp add: removeInstanceFromLB_def split: option.splits)

lemma removeInstanceStates_lbs [simp]:
  "lbs (removeInstanceStatesFromLoadBalancer srv name iid) = lbs srv"
  by (simp add: removeInstanceStatesFromLoadBalancer_def Let_def split: option.splits)

lemma createLoadBalancer_keeps:
  assumes "ports_distinct srv" and "distinct (map LoadBalancerPort (Listeners (makeLoadBalancer req)))"
  shows "ports_distinct (snd (createLoadBalancer srv req rid))"
  using assms
  by (auto simp: createLoadBalancer_def Let_def ports_distinct_def split: option.splits)

lemma deleteLoadBalancer_keeps:
  "ports_distinct srv \<Longrightarrow> ports_distinct (snd (deleteLoadBalancer srv req rid))"
  by (auto simp: deleteLoadBalancer_def RemoveLoadBalancer_def ports_distinct_def
      split: option.splits)

lemma registerInstances_keeps:
  "ports_distinct srv \<Longrightarrow> ports_distinct (snd (registerInstancesWithLoadBalancer srv req rid))"
  by (auto simp: registerInstancesWithLoadBalancer_def Let_def ports_distinct_def
      split: option.splits sum.splits prod.splits if_splits)

lemma deregisterInstances_keeps:
  assumes "ports_distinct srv"
  shows "ports_distinct (snd (deregisterInstancesFromLoadBalancer srv req rid))"
proof (cases "lbs srv (Get req ''LoadBalancerName'')")
  case None
  with assms show ?thesis
    by (simp add: deregisterInstancesFromLoadBalancer_def Let_def lbExists_def split: option.splits)
next
  case (Some lb0)
  let ?body = "\<lambda>(i::nat) instId lb.
                 case instanceExists srv instId of
                   Some err \<Rightarrow> Inl (err, lb)
                 | None \<Rightarrow> Inr (removeInstanceFromLB lb instId)"
  have loop: "case probe ''Instances.member.'' ''.InstanceId'' req ?body 1 lb0 of
                Inl e \<Rightarrow> Listeners (snd e) = Listeners lb0
              | Inr (x, lb) \<Rightarrow> Listeners lb = Listeners lb0"
    by (rule probe_rule) (auto split: option.splits)
  from assms Some have d: "distinct (map LoadBalancerPort (Listeners lb0))"
    by (rule ports_distinct_get)
  from loop d assms Some show ?thesis
    by (auto simp: deregisterInstancesFromLoadBalancer_def Let_def lbExists_def ports_distinct_def
        split: option.splits sum.splits prod.splits)
qed

lemma describeLoadBalancers_keeps:
  "ports_distinct srv \<Longrightarrow> ports_distinct (snd (describeLoadBalancers srv req rid))"
  by (auto simp: describeLoadBalancers_def split: sum.splits)

lemma addTags_keeps:
  "ports_distinct srv \<Longrightarrow> ports_distinct (snd (addTags srv req rid))"
  by (simp add: addTags_def Let_def ports_distinct_def)

lemma describeTags_keeps:
  "ports_distinct srv \<Longrightarrow> ports_distinct (snd (describeTags srv req rid))"
  by (simp add: describeTags_def Let_def)

lemma createLoadBalancerListeners_keeps:
  assumes "ports_distinct srv" and "distinct (map LoadBalancerPort (Listeners (makeLoadBalancer req)))"
  shows "ports_distinct (snd (createLoadBalancerListeners srv req rid))"
  using assms
  by (auto simp: createLoadBalancerListeners_def Let_def ports_distinct_def split: option.splits)

lemma deleteLoadBalancerListeners_keeps:
  assumes "ports_distinct srv"
  shows "ports_distinct (snd (deleteLoadBalancerListeners srv req rid))"
  using assms
  by (auto simp: deleteLoadBalancerListeners_def Let_def ports_distinct_def listenersToKeep_filter
        distinct_map_filter split: option.splits sum.splits prod.splits)

lemma map_port_update:
  "map LoadBalancerPort (ls[i := (ls ! i)\<lparr>SSLCertificateId := c\<rparr>]) = map LoadBalancerPort ls"
proof (cases "i < length ls")
  case True
  then show ?thesis by (simp add: map_update list_update_same_conv)
next
  case False
  then have "length ls \<le> i" by simp
  then show ?thesis by (simp only: list_update_beyond)
qed

lemma setSSLCertificate_keeps:
  assumes "ports_distinct srv"
  shows "ports_distinct (snd (setLoadBalancerListenerSSLCertificate srv req rid))"
  using assms
  by (auto simp: setLoadBalancerListenerSSLCertificate_def Let_def ports_distinct_def
        map_port_update split: option.splits)

lemma describeInstanceHealth_keeps:
  "ports_distinct srv \<Longrightarrow> ports_distinct (snd (describeInstanceHealth srv req rid))"
  by (auto simp: describeInstanceHealth_def split: option.splits sum.splits prod.splits)

lemma configureHealthCheck_keeps:
  "ports_distinct srv \<Longrightarrow> ports_distinct (snd (configureHealthCheck srv req rid))"
  by (auto simp: configureHealthCheck_def Let_def ports_distinct_def split: option.splits)

lemma actions_cases:
  assumes "actions a = Some f"
  shows "(a = ''CreateLoadBalancer'' \<and> f = createLoadBalancer)
       \<or> (a = ''CreateLoadBalancerListeners'' \<and> f = createLoadBalancerListeners)
       \<or> (a \<noteq> ''CreateLoadBalancer'' \<and> a \<noteq> ''CreateLoadBalancerListeners''
            \<and> f \<in> {deleteLoadBalancer, registerInstancesWithLoadBalancer,
                     deregisterInstancesFromLoadBalancer, describeLoadBalancers,
                     describeInstanceHealth, configureHealthCheck, addTags, describeTags,
                     deleteLoadBalancerListeners, setLoadBalancerListenerSSLCertificate})"
  using assms by (simp add: actions_def split: if_splits)

lemma serveHTTP_keeps:
  assumes "ports_distinct srv" and "carries_distinct_ports (Request form)"
  shows "ports_distinct (snd (serveHTTP srv form))"
proof (cases "actions (Get form ''Action'')")
  case None
  with assms(1) show ?thesis by (simp add: serveHTTP_def)
next
  case (Some f)
  have srv1: "ports_distinct (srv\<lparr>reqId := reqId srv + 1\<rparr>)"
    using assms(1) by (simp add: ports_distinct_def)
  have "ports_distinct (snd (f (srv\<lparr>reqId := reqId srv + 1\<rparr>) form (''req'' @ hex (reqId srv))))"
    using actions_cases [OF Some] assms(2) srv1
    by (auto simp: carries_distinct_ports_def
        intro: createLoadBalancer_keeps createLoadBalancerListeners_keeps deleteLoadBalancer_keeps
          registerInstances_keeps deregisterInstances_keeps describeLoadBalancers_keeps
          describeInstanceHealth_keeps configureHealthCheck_keeps addTags_keeps describeTags_keeps
          deleteLoadBalancerListeners_keeps setSSLCertificate_keeps)
  with Some show ?thesis by (simp add: serveHTTP_def Let_def)
qed

lemma after_keeps:
  assumes "ports_distinct srv" and "carries_distinct_ports call"
  shows "ports_distinct (after srv call)"
proof (cases call)
  case (Request form)
  with assms show ?thesis by (simp add: serveHTTP_keeps)
next
  case CallNewInstance
  with assms(1) show ?thesis by (simp add: NewInstance_def Let_def ports_distinct_def)
next
  case (CallRemoveInstance instId)
  with assms(1) show ?thesis
    by (simp add: RemoveInstance_def ports_distinct_def split: prod.splits)
next
  case (CallNewLoadBalancer name)
  with assms(1) show ?thesis by (simp add: NewLoadBalancer_def ports_distinct_def)
next
  case (CallRemoveLoadBalancer name)
  with assms(1) show ?thesis by (simp add: RemoveLoadBalancer_def ports_distinct_def)
next
  case (CallRegisterInstance instId lbName)
  with assms(1) show ?thesis
    by (auto simp: RegisterInstance_def ports_distinct_def split: option.splits)
next
  case (CallDeregisterInstance instId lbName)
  with assms(1) show ?thesis
    by (auto simp: DeregisterInstance_def ports_distinct_def split: option.splits)
next
  case (CallChangeInstanceState lb state)
  with assms(1) show ?thesis
    by (simp add: ChangeInstanceState_def Let_def ports_distinct_def split: option.splits)
qed

lemma foldl_after_keeps:
  "ports_distinct srv \<Longrightarrow> \<forall>call \<in> set calls. carries_distinct_ports call \<Longrightarrow>
   ports_distinct (foldl after srv calls)"
  by (induction calls arbitrary: srv) (simp_all add: after_keeps)

lemma createLoadBalancerListeners_rejects:
  assumes "lbs srv (Get req ''LoadBalancerName'') = Some lb"
      and "\<exists>l \<in> set (Listeners (makeLoadBalancer req)).
             LoadBalancerPort l \<in> LoadBalancerPort ` set (Listeners lb)"
  shows "createLoadBalancerListeners srv req rid
           = (Fail \<lparr>StatusCode = 400, Code = ''400'', Message = ''Bad Request''\<rparr>, srv)"
  using assms by (auto simp: createLoadBalancerListeners_def Let_def list_ex_iff)

text \<open>
  C3, as the code has it. Start from a new server and make any calls, requests and
  test-control calls, in which no CreateLoadBalancer or CreateLoadBalancerListeners
  request repeats a port among its own listeners. Then in the state reached no two
  listeners of a load balancer have the same port, and a CreateLoadBalancerListeners request
  with a listener on a port that a stored listener of that load balancer has is rejected
  with the 400 error and changes nothing. Ports repeated inside one request are not looked
  for by any handler.
\<close>

theorem listener_ports_distinct:
  assumes "\<forall>call \<in> set calls. carries_distinct_ports call"
  shows "ports_distinct (foldl after NewServer calls)
       \<and> (\<forall>req lb rid.
            lbs (foldl after NewServer calls) (Get req ''LoadBalancerName'') = Some lb
            \<and> (\<exists>l \<in> set (Listeners (makeLoadBalancer req)).
                   LoadBalancerPort l \<in> LoadBalancerPort ` set (Listeners lb))
            \<longrightarrow> createLoadBalancerListeners (foldl after NewServer calls) req rid
                 = (Fail \<lparr>StatusCode = 400, Code = ''400'', Message = ''Bad Request''\<rparr>,
                    foldl after NewServer calls))"
proof -
  have "ports_distinct NewServer" by (simp add: ports_distinct_def NewServer_def)
  with assms have "ports_distinct (foldl after NewServer calls)"
    by (intro foldl_after_keeps)
  then show ?thesis
    by (auto intro: createLoadBalancerListeners_rejects)
qed

definition calls_create_delete :: "Call list" where
  "calls_create_delete = [Request req_create3, Request req_delete_443]"

lemma req_create3_action: "actions (Get req_create3 ''Action'') = Some createLoadBalancer"
  "Get req_create3 ''Action'' = ''CreateLoadBalancer''"
  by (simp_all add: req_create3_def Get_def actions_def)

lemma req_delete_443_action:
  "actions (Get req_delete_443 ''Action'') = Some deleteLoadBalancerListeners"
  "Get req_delete_443 ''Action'' = ''DeleteLoadBalancerListeners''"
  by (simp_all add: req_delete_443_def Get_def actions_def)

lemma lbs_after_create3:
  "lbs (snd (serveHTTP NewServer req_create3))
     = [''lb-3'' \<mapsto> (makeLoadBalancer req_create3)
          \<lparr>DNSName := ''lb-3-some-aws-stuff.us-east-1.elb.amazonaws.com''\<rparr>]"
  by (simp add: serveHTTP_def req_create3_action(1) createLoadBalancer_passes [OF req_create3_passes(1,2)]
        req_create3_passes(3) NewServer_def)

lemma req_delete_443_probe:
  "probe_all ''LoadBalancerPorts.member.'' [] req_delete_443 (\<lambda>i x r. r @ [x]) (Suc 0) [] = [''443'']"
  using req_delete_443_ports(1) by (simp add: getParameters_def)

lemma ports_after_create_delete:
  "map_option (\<lambda>lb. map LoadBalancerPort (Listeners lb))
     (lbs (foldl after NewServer calls_create_delete) ''lb-3'') = Some [80, 9000]"
  by (simp add: calls_create_delete_def serveHTTP_def [of _ req_delete_443] req_delete_443_action(1)
        deleteLoadBalancerListeners_def req_delete_443_ports lbs_after_create3
        probe_ports [OF refl] req_delete_443_probe Atoi_443
        listenersToKeep_filter Listeners_req_create3 listener_80_def listener_443_def
        listener_9000_def)

theorem listener_ports_distinct_witness:
  "list_all carries_distinct_ports calls_create_delete
   \<and> ports_distinct (foldl after NewServer calls_create_delete)
   \<and> map_option (\<lambda>lb. map LoadBalancerPort (Listeners lb))
        (lbs (foldl after NewServer calls_create_delete) ''lb-3'') = Some [80, 9000]
   \<and> createLoadBalancerListeners (foldl after NewServer calls_create_delete) req_create3 ''req2''
        = (Fail \<lparr>StatusCode = 400, Code = ''400'', Message = ''Bad Request''\<rparr>,
           foldl after NewServer calls_create_delete)"
proof -
  have c: "\<forall>call \<in> set calls_create_delete. carries_distinct_ports call"
    by (simp add: calls_create_delete_def carries_distinct_ports_def req_create3_action(2)
          req_delete_443_action(2) Listeners_req_create3 listener_80_def listener_443_def
          listener_9000_def)
  obtain lb where lb: "lbs (foldl after NewServer calls_create_delete) ''lb-3'' = Some lb"
      and p: "map LoadBalancerPort (Listeners lb) = [80, 9000]"
    using ports_after_create_delete by auto
  have hit: "\<exists>l \<in> set (Listeners (makeLoadBalancer req_create3)).
               LoadBalancerPort l \<in> LoadBalancerPort ` set (Listeners lb)"
    unfolding set_map [symmetric] p
    by (simp add: Listeners_req_create3 listener_80_def)
  from listener_ports_distinct [OF c] lb hit c ports_after_create_delete
  show ?thesis
    by (auto simp: req_create3_passes(3) list_all_iff)
qed

definition req_create_dup :: Values where
  "req_create_dup =
     [(''Action'', [''CreateLoadBalancer'']),
      (''LoadBalancerName'', [''lb-1'']),
      (''AvailabilityZones.member.1'', [''us-east-1a'']),
      (''Listeners.member.1.InstancePort'', [''8080'']),
      (''Listeners.member.1.InstanceProtocol'', [''http'']),
      (''Listeners.member.1.Protocol'', [''http'']),
      (''Listeners.member.1.LoadBalancerPort'', [''80'']),
      (''Listeners.member.2.InstancePort'', [''9090'']),
      (''Listeners.member.2.InstanceProtocol'', [''tcp'']),
      (''Listeners.member.2.Protocol'', [''tcp'']),
      (''Listeners.member.2.LoadBalancerPort'', [''80''])]"

lemma req_create_dup_passes:
  "validateComposition req_create_dup [(''AvailabilityZones.member.1'', ''Subnets.member.1'')] = None"
  "validate req_create_dup createLoadBalancer_required = None"
  "Get req_create_dup ''LoadBalancerName'' = ''lb-1''"
  "actions (Get req_create_dup ''Action'') = Some createLoadBalancer"
  by (simp_all add: req_create_dup_def createLoadBalancer_required_def Get_def actions_def)

lemma ports_req_create_dup:
  "map LoadBalancerPort (Listeners (makeLoadBalancer req_create_dup)) = [80, 80]"
  by (simp add: makeLoadBalancer_def makeListener_def req_create_dup_def eval)

text \<open>
  C3 as stated fails after one request: a CreateLoadBalancer request with two listeners
  on port 80 is answered with success, and the load balancer it creates has both.
\<close>

theorem duplicate_ports_in_one_request:
  "fst (serveHTTP NewServer req_create_dup)
     = Return (CreateLoadBalancerResp ''lb-1-some-aws-stuff.us-east-1.elb.amazonaws.com'')
   \<and> map_option (\<lambda>lb. map LoadBalancerPort (Listeners lb))
         (lbs (after NewServer (Request req_create_dup)) ''lb-1'') = Some [80, 80]
   \<and> \<not> ports_distinct (after NewServer (Request req_create_dup))"
proof -
  have s: "serveHTTP NewServer req_create_dup =
             createLoadBalancer (NewServer\<lparr>reqId := reqId NewServer + 1\<rparr>) req_create_dup
               (''req'' @ hex (reqId NewServer))"
    by (simp add: serveHTTP_def req_create_dup_passes)
  have l: "map_option (\<lambda>lb. map LoadBalancerPort (Listeners lb))
             (lbs (snd (serveHTTP NewServer req_create_dup)) ''lb-1'') = Some [80, 80]"
    by (simp add: s createLoadBalancer_passes [OF req_create_dup_passes(1,2)]
          req_create_dup_passes(3) ports_req_create_dup)
  have "\<not> ports_distinct (snd (serveHTTP NewServer req_create_dup))"
  proof
    assume pd: "ports_distinct (snd (serveHTTP NewServer req_create_dup))"
    from l obtain lb where lb: "lbs (snd (serveHTTP NewServer req_create_dup)) ''lb-1'' = Some lb"
      and p: "map LoadBalancerPort (Listeners lb) = [80, 80]"
      by auto
    from ports_distinct_get [OF pd lb] p show False by simp
  qed
  with l show ?thesis
    by (simp add: s createLoadBalancer_passes [OF req_create_dup_passes(1,2)]
          req_create_dup_passes(3))
qed

end
